theory Spec2Isabelle
  imports Complex_Main
begin

section \<open>JavaScript string and number primitives used by the sources\<close>

text \<open>
  Strings are lists of characters with codes below 256. Integers produced by
  \<open>parseInt\<close> are unbounded (\<open>int\<close>); the result \<open>NaN\<close> is \<open>None\<close>. Numbers
  produced by \<open>parseFloat\<close> are \<open>NaN\<close>, an infinity or the exact rational value of
  the decimal literal. The rounding to a double (of integers beyond \<open>2 ^ 53\<close>, of
  decimal fractions, of values too large for a double) is not modelled.
\<close>

definition isWhiteSpace :: "char \<Rightarrow> bool" where
  "isWhiteSpace c = (of_char c \<in> {9, 10, 11, 12, 13, 32, 160 :: nat})"

text \<open>\<open>String.prototype.trim\<close>.\<close>

definition trim :: "string \<Rightarrow> string" where
  "trim s = rev (dropWhile isWhiteSpace (rev (dropWhile isWhiteSpace s)))"

text \<open>
  \<open>String.prototype.split\<close> with a separator of one character: the empty string
  splits into one empty token, and two adjacent separators enclose an empty token.
\<close>

fun splitAcc :: "char \<Rightarrow> string \<Rightarrow> string \<Rightarrow> string list" where
  "splitAcc sep acc [] = [rev acc]"
| "splitAcc sep acc (c # cs) =
     (if c = sep then rev acc # splitAcc sep [] cs else splitAcc sep (c # acc) cs)"

definition split :: "char \<Rightarrow> string \<Rightarrow> string list" where
  "split sep s = splitAcc sep [] s"

text \<open>The value of a character as a digit in the given radix (10 or 16).\<close>

definition digitOf :: "nat \<Rightarrow> char \<Rightarrow> nat option" where
  "digitOf radix c =
     (let n = (of_char c :: nat);
          v = (if 48 \<le> n \<and> n \<le> 57 then Some (n - 48)
               else if 97 \<le> n \<and> n \<le> 102 then Some (n - 87)
               else if 65 \<le> n \<and> n \<le> 70 then Some (n - 55)
               else None)
      in case v of None \<Rightarrow> None | Some d \<Rightarrow> if d < radix then Some d else None)"

definition digitsValue :: "nat \<Rightarrow> string \<Rightarrow> nat" where
  "digitsValue radix ds = foldl (\<lambda>a c. a * radix + the (digitOf radix c)) 0 ds"

text \<open>
  \<open>parseInt(s)\<close> without a radix: leading white space is skipped, then an optional
  sign, then an optional prefix \<open>0x\<close> or \<open>0X\<close> that selects radix 16, then the longest
  run of digits; anything after it is ignored. No digit at all gives \<open>NaN\<close>.
\<close>

definition parseInt :: "string \<Rightarrow> int option" where
  "parseInt s =
     (let t = dropWhile isWhiteSpace s;
          neg = (t \<noteq> [] \<and> hd t = CHR ''-'');
          u = (if t \<noteq> [] \<and> (hd t = CHR ''-'' \<or> hd t = CHR ''+'') then tl t else t);
          hex = (take 2 u = ''0x'' \<or> take 2 u = ''0X'');
          radix = (if hex then 16 else 10);
          v = (if hex then drop 2 u else u);
          ds = takeWhile (\<lambda>c. digitOf radix c \<noteq> None) v
      in if ds = [] then None
         else Some ((if neg then - 1 else 1) * int (digitsValue radix ds)))"

text \<open>A JavaScript number; the flag of \<open>Infinity\<close> is true for the negative one.\<close>

datatype jsnum = NaN | Infinity bool | Num rat

text \<open>Truthiness of a number that may be \<open>undefined\<close>, as \<open>||\<close> tests it.\<close>

fun truthyNum :: "jsnum option \<Rightarrow> bool" where
  "truthyNum None = False"
| "truthyNum (Some NaN) = False"
| "truthyNum (Some (Infinity _)) = True"
| "truthyNum (Some (Num r)) = (r \<noteq> 0)"

text \<open>\<open>v || d\<close> for a number \<open>v\<close> that may be \<open>undefined\<close>.\<close>

definition orNum :: "jsnum option \<Rightarrow> jsnum \<Rightarrow> jsnum" where
  "orNum v d = (if truthyNum v then the v else d)"

definition isDigit :: "char \<Rightarrow> bool" where
  "isDigit c = (48 \<le> (of_char c :: nat) \<and> (of_char c :: nat) \<le> 57)"

definition pow10 :: "int \<Rightarrow> rat" where
  "pow10 e = (if e \<ge> 0 then 10 ^ nat e else 1 / 10 ^ nat (- e))"

text \<open>
  The exponent part of a decimal literal: \<open>e\<close> or \<open>E\<close>, an optional sign and at
  least one digit; anything else is no exponent.
\<close>

definition exponentPart :: "string \<Rightarrow> int" where
  "exponentPart r =
     (if r \<noteq> [] \<and> (hd r = CHR ''e'' \<or> hd r = CHR ''E'') then
        (let r1 = tl r;
             neg = (r1 \<noteq> [] \<and> hd r1 = CHR ''-'');
             r2 = (if r1 \<noteq> [] \<and> (hd r1 = CHR ''-'' \<or> hd r1 = CHR ''+'') then tl r1 else r1);
             ds = takeWhile isDigit r2
         in if ds = [] then 0
            else (if neg then - 1 else 1) * int (digitsValue 10 ds))
      else 0)"

text \<open>
  \<open>parseFloat(s)\<close>: leading white space is skipped; the longest prefix that is a
  decimal literal (sign, \<open>Infinity\<close> or digits with an optional fraction and exponent)
  is the value; no such prefix gives \<open>NaN\<close>.
\<close>

definition parseFloat :: "string \<Rightarrow> jsnum" where
  "parseFloat s =
     (let t = dropWhile isWhiteSpace s;
          neg = (t \<noteq> [] \<and> hd t = CHR ''-'');
          u = (if t \<noteq> [] \<and> (hd t = CHR ''-'' \<or> hd t = CHR ''+'') then tl t else t)
      in if take 8 u = ''Infinity'' then Infinity neg
         else
           (let ip = takeWhile isDigit u;
                r1 = dropWhile isDigit u;
                hasDot = (r1 \<noteq> [] \<and> hd r1 = CHR ''.'');
                fp = (if hasDot then takeWhile isDigit (tl r1) else []);
                r2 = (if hasDot then dropWhile isDigit (tl r1) else r1)
            in if ip = [] \<and> fp = [] then NaN
               else Num ((if neg then - 1 else 1)
                         * (of_nat (digitsValue 10 ip)
                            + of_nat (digitsValue 10 fp) / 10 ^ length fp)
                         * pow10 (exponentPart r2))))"

text \<open>\<open>String.prototype.toLowerCase\<close> on the ASCII letters.\<close>

definition toLowerCase :: "string \<Rightarrow> string" where
  "toLowerCase s =
     map (\<lambda>c. if 65 \<le> (of_char c :: nat) \<and> (of_char c :: nat) \<le> 90
              then char_of ((of_char c :: nat) + 32) else c) s"

text \<open>\<open>String.prototype.endsWith\<close>.\<close>

definition endsWith :: "string \<Rightarrow> string \<Rightarrow> bool" where
  "endsWith s suffix =
     (length suffix \<le> length s \<and> drop (length s - length suffix) s = suffix)"

text \<open>\<open>Array.prototype.join\<close> on strings.\<close>

fun joinWith :: "string \<Rightarrow> string list \<Rightarrow> string" where
  "joinWith sep [] = []"
| "joinWith sep [x] = x"
| "joinWith sep (x # y # ys) = x @ sep @ joinWith sep (y # ys)"

text \<open>A string option (\<open>undefined\<close> is \<open>None\<close>) is truthy when it is a non-empty string.\<close>

definition truthyStr :: "string option \<Rightarrow> bool" where
  "truthyStr v = (case v of None \<Rightarrow> False | Some s \<Rightarrow> s \<noteq> [])"


section \<open>Edits, documents and the environment of the modifier\<close>

text \<open>
  The edit records of the modifier. A field that may be absent is an option.
  Positions and colours are typed as tuples in the source, but the casts that build
  them are unchecked, so they are lists here. A page number is an integer;
  \<open>undefined\<close> and \<open>NaN\<close> (both falsy) are \<open>None\<close>.
\<close>

record SignatureOptions =
  s_position :: "jsnum list"
  s_imagePath :: "string option"
  s_text :: "string option"
  s_fontSize :: "jsnum option"
  s_color :: "jsnum list option"

datatype field_value = StrVal string | NumVal jsnum | BoolVal bool

record FormFillData =
  fieldName :: string
  fieldValue :: field_value
  fieldType :: "string option"

record TextInsertion =
  t_text :: string
  t_position :: "jsnum list"
  t_pageNumber :: "int option"
  t_fontSize :: "jsnum option"
  t_color :: "jsnum list option"
  t_fontName :: "string option"

record ImageInsertion =
  i_imagePath :: string
  i_position :: "jsnum list"
  i_pageNumber :: "int option"

text \<open>
  An error value stands for the thrown \<open>Error\<close> and for its message.
  \<open>ModificationFailed e\<close> is \<open>new Error(`PDF modification failed: ${e}`)\<close>.
\<close>

datatype js_error =
    Message string
  | FileReadError string
  | PdfLoadError string
  | SaveError
  | FileWriteError string
  | ModificationFailed js_error
  | ConfigError string

record PDFModificationResult =
  success :: bool
  modificationsApplied :: nat
  signaturesAdded :: nat
  formsFilled :: nat
  textInsertions :: nat
  imageInsertions :: nat
  outputPath :: string
  processingTime :: int
  errorMessage :: "js_error option"

text \<open>
  The document model of the PDF library, as far as the modifier observes it: the
  number of pages, the form fields (\<open>None\<close> when \<open>getForm\<close> throws) and the calls that
  changed the document so far, in order. \<open>PDFOtherField\<close> is any field class other
  than the three the modifier tests for.
\<close>

datatype field_kind = PDFTextField | PDFCheckBox | PDFRadioGroup | PDFOtherField

record pdf_field =
  f_name :: string
  f_kind :: field_kind

datatype doc_op =
    SetText string field_value
  | Check string
  | Uncheck string
  | Select string field_value
  | DrawText nat string "jsnum list" jsnum "jsnum list"
  | DrawImage nat string "jsnum list"

record document =
  pageCount :: nat
  formFields :: "pdf_field list option"
  ops :: "doc_op list"

datatype file_content = PdfFile document | PngImage | JpgImage | OtherContent

text \<open>
  The environment: the files that can be read and what they hold, which library
  calls throw (a value a field rejects, a text that cannot be encoded, a colour out
  of range), whether saving the document throws, which paths can be written, and
  the time a modification of an input takes.
\<close>

record world =
  files :: "string \<Rightarrow> file_content option"
  libThrows :: "doc_op \<Rightarrow> bool"
  saveThrows :: "document \<Rightarrow> bool"
  writable :: "string \<Rightarrow> bool"
  elapsed :: "string \<Rightarrow> int"

section \<open>The single-document modifier (\<open>PDFModifier\<close>)\<close>

fun truthyValue :: "field_value \<Rightarrow> bool" where
  "truthyValue (StrVal s) = (s \<noteq> [])"
| "truthyValue (NumVal n) = truthyNum (Some n)"
| "truthyValue (BoolVal b) = b"

text \<open>
  One library call inside a \<open>try\<close> whose \<open>catch\<close> only warns: the call is recorded
  and counted, or it throws and nothing changes.
\<close>

definition tryOp :: "world \<Rightarrow> document \<times> nat \<Rightarrow> doc_op \<Rightarrow> document \<times> nat" where
  "tryOp w dn op =
     (if libThrows w op then dn
      else (fst dn\<lparr>ops := ops (fst dn) @ [op]\<rparr>, snd dn + 1))"

text \<open>The body of the loop of \<open>fillForms\<close>; \<open>find\<close> takes the first field of that name.\<close>

definition fillOne :: "world \<Rightarrow> pdf_field list \<Rightarrow> document \<times> nat \<Rightarrow> FormFillData \<Rightarrow> document \<times> nat" where
  "fillOne w flds dn formItem =
     (case find (\<lambda>f. f_name f = fieldName formItem) flds of
        None \<Rightarrow> dn
      | Some field \<Rightarrow>
          (case f_kind field of
             PDFTextField \<Rightarrow> tryOp w dn (SetText (f_name field) (fieldValue formItem))
           | PDFCheckBox \<Rightarrow>
               (if truthyValue (fieldValue formItem) then tryOp w dn (Check (f_name field))
                else tryOp w dn (Uncheck (f_name field)))
           | PDFRadioGroup \<Rightarrow> tryOp w dn (Select (f_name field) (fieldValue formItem))
           | PDFOtherField \<Rightarrow> dn))"

definition fillForms :: "world \<Rightarrow> document \<Rightarrow> FormFillData list \<Rightarrow> document \<times> nat" where
  "fillForms w pdfDoc formData =
     (case formFields pdfDoc of
        None \<Rightarrow> (pdfDoc, 0)
      | Some flds \<Rightarrow> foldl (fillOne w flds) (pdfDoc, 0) formData)"

text \<open>
  The body of the loop of \<open>addSignatures\<close>. The page is always \<open>pages[0]\<close>; on a
  document without pages it is \<open>undefined\<close> and the drawing call throws inside the
  \<open>try\<close>. Reading a missing image and embedding a file of the wrong format throw
  there too.
\<close>

definition defaultColor :: "jsnum list option \<Rightarrow> jsnum list" where
  "defaultColor c = (case c of None \<Rightarrow> [Num 0, Num 0, Num 0] | Some l \<Rightarrow> l)"

definition addSignature :: "world \<Rightarrow> document \<times> nat \<Rightarrow> SignatureOptions \<Rightarrow> document \<times> nat" where
  "addSignature w dn signature =
     (if truthyStr (s_imagePath signature) then
        (let path = the (s_imagePath signature) in
         if endsWith (toLowerCase path) ''.png'' then
           (if files w path = Some PngImage \<and> 0 < pageCount (fst dn)
            then tryOp w dn (DrawImage 0 path (s_position signature)) else dn)
         else if endsWith (toLowerCase path) ''.jpg'' \<or> endsWith (toLowerCase path) ''.jpeg'' then
           (if files w path = Some JpgImage \<and> 0 < pageCount (fst dn)
            then tryOp w dn (DrawImage 0 path (s_position signature)) else dn)
         else dn)
      else if truthyStr (s_text signature) then
        (if 0 < pageCount (fst dn)
         then tryOp w dn (DrawText 0 (the (s_text signature)) (s_position signature)
                (orNum (s_fontSize signature) (Num 12)) (defaultColor (s_color signature)))
         else dn)
      else dn)"

definition addSignatures :: "world \<Rightarrow> document \<Rightarrow> SignatureOptions list \<Rightarrow> document \<times> nat" where
  "addSignatures w pdfDoc signatures = foldl (addSignature w) (pdfDoc, 0) signatures"

text \<open>\<open>pageNumber || 0\<close>, and whether \<open>pages[pageIndex]\<close> is a page.\<close>

definition pageIndexOf :: "int option \<Rightarrow> int" where
  "pageIndexOf n = (case n of None \<Rightarrow> 0 | Some k \<Rightarrow> k)"

definition hasPage :: "document \<Rightarrow> int \<Rightarrow> bool" where
  "hasPage d i = (0 \<le> i \<and> i < int (pageCount d))"

text \<open>The body of the loop of \<open>insertText\<close>: a missing page is skipped with a warning.\<close>

definition insertTextItem :: "world \<Rightarrow> document \<times> nat \<Rightarrow> TextInsertion \<Rightarrow> document \<times> nat" where
  "insertTextItem w dn textItem =
     (let pageIndex = pageIndexOf (t_pageNumber textItem) in
      if \<not> hasPage (fst dn) pageIndex then dn
      else tryOp w dn (DrawText (nat pageIndex) (t_text textItem) (t_position textItem)
             (orNum (t_fontSize textItem) (Num 12)) (defaultColor (t_color textItem))))"

definition insertText :: "world \<Rightarrow> document \<Rightarrow> TextInsertion list \<Rightarrow> document \<times> nat" where
  "insertText w pdfDoc items = foldl (insertTextItem w) (pdfDoc, 0) items"

text \<open>
  The body of the loop of \<open>insertImages\<close>: the file is read before its extension
  is tested, and an extension other than png, jpg or jpeg is skipped.
\<close>

definition insertImageItem :: "world \<Rightarrow> document \<times> nat \<Rightarrow> ImageInsertion \<Rightarrow> document \<times> nat" where
  "insertImageItem w dn imageItem =
     (let pageIndex = pageIndexOf (i_pageNumber imageItem);
          path = i_imagePath imageItem in
      if \<not> hasPage (fst dn) pageIndex then dn
      else if files w path = None then dn
      else if endsWith (toLowerCase path) ''.png'' then
        (if files w path = Some PngImage
         then tryOp w dn (DrawImage (nat pageIndex) path (i_position imageItem)) else dn)
      else if endsWith (toLowerCase path) ''.jpg'' \<or> endsWith (toLowerCase path) ''.jpeg'' then
        (if files w path = Some JpgImage
         then tryOp w dn (DrawImage (nat pageIndex) path (i_position imageItem)) else dn)
      else dn)"

definition insertImages :: "world \<Rightarrow> document \<Rightarrow> ImageInsertion list \<Rightarrow> document \<times> nat" where
  "insertImages w pdfDoc items = foldl (insertImageItem w) (pdfDoc, 0) items"

text \<open>
  The four numbered steps of \<open>modifyWithPdfLib\<close>, in the order forms, signatures,
  text, images, each behind its test for a non-empty list: the document after them
  and the four counts.
\<close>

definition applyEdits ::
  "world \<Rightarrow> document \<Rightarrow> SignatureOptions list \<Rightarrow> FormFillData list \<Rightarrow>
   TextInsertion list \<Rightarrow> ImageInsertion list \<Rightarrow> document \<times> nat \<times> nat \<times> nat \<times> nat" where
  "applyEdits w pdfDoc signatures formData texts images =
     (let f = (if length formData > 0 then fillForms w pdfDoc formData else (pdfDoc, 0));
          s = (if length signatures > 0 then addSignatures w (fst f) signatures else (fst f, 0));
          t = (if length texts > 0 then insertText w (fst s) texts else (fst s, 0));
          i = (if length images > 0 then insertImages w (fst t) images else (fst t, 0))
      in (fst i, snd f, snd s, snd t, snd i))"

text \<open>
  \<open>modifyWithPdfLib\<close>: reading and loading the input are outside the inner \<open>try\<close>;
  an error of saving or writing is rethrown wrapped. The result comes with the
  document that was written.
\<close>

definition modifyWithPdfLib ::
  "world \<Rightarrow> string \<Rightarrow> string \<Rightarrow> SignatureOptions list \<Rightarrow> FormFillData list \<Rightarrow>
   TextInsertion list \<Rightarrow> ImageInsertion list \<Rightarrow> js_error + (PDFModificationResult \<times> document)" where
  "modifyWithPdfLib w inputPath outPath signatures formData texts images =
     (case files w inputPath of
        None \<Rightarrow> Inl (FileReadError inputPath)
      | Some (PdfFile pdfDoc) \<Rightarrow>
          (case applyEdits w pdfDoc signatures formData texts images of
             (edited, formsCnt, signaturesCnt, textCnt, imagesCnt) \<Rightarrow>
               if saveThrows w edited then Inl (ModificationFailed SaveError)
               else if \<not> writable w outPath then Inl (ModificationFailed (FileWriteError outPath))
               else Inr (\<lparr>success = True,
                          modificationsApplied = formsCnt + signaturesCnt + textCnt + imagesCnt,
                          signaturesAdded = signaturesCnt,
                          formsFilled = formsCnt,
                          textInsertions = textCnt,
                          imageInsertions = imagesCnt,
                          outputPath = outPath,
                          processingTime = elapsed w inputPath,
                          errorMessage = None\<rparr>, edited))
      | Some _ \<Rightarrow> Inl (PdfLoadError inputPath))"

text \<open>
  \<open>modifyPdf\<close>: every error of \<open>modifyWithPdfLib\<close> is caught and turned into a
  failed result. The second component is the file written, if any.
\<close>

definition modifyPdf ::
  "world \<Rightarrow> string \<Rightarrow> string \<Rightarrow> SignatureOptions list \<Rightarrow> FormFillData list \<Rightarrow>
   TextInsertion list \<Rightarrow> ImageInsertion list \<Rightarrow>
   PDFModificationResult \<times> (string \<times> document) option" where
  "modifyPdf w inputPath outPath signatures formData texts images =
     (case modifyWithPdfLib w inputPath outPath signatures formData texts images of
        Inr (r, d) \<Rightarrow> (r, Some (outPath, d))
      | Inl e \<Rightarrow>
          (\<lparr>success = False,
            modificationsApplied = 0,
            signaturesAdded = 0,
            formsFilled = 0,
            textInsertions = 0,
            imageInsertions = 0,
            outputPath = [],
            processingTime = elapsed w inputPath,
            errorMessage = Some e\<rparr>, None))"

subsection \<open>The library call of each edit\<close>

text \<open>
  For the statement of what the loops do: the library call an edit leads to in a
  document, or \<open>None\<close> when the loop body skips the edit before any call (no field of
  that name, a field class that is not handled, no such page, an image that cannot
  be read or embedded, an extension that is not supported).
\<close>

definition formCall :: "document \<Rightarrow> FormFillData \<Rightarrow> doc_op option" where
  "formCall d formItem =
     (case formFields d of
        None \<Rightarrow> None
      | Some flds \<Rightarrow>
          (case find (\<lambda>f. f_name f = fieldName formItem) flds of
             None \<Rightarrow> None
           | Some field \<Rightarrow>
               (case f_kind field of
                  PDFTextField \<Rightarrow> Some (SetText (f_name field) (fieldValue formItem))
                | PDFCheckBox \<Rightarrow>
                    Some (if truthyValue (fieldValue formItem) then Check (f_name field)
                          else Uncheck (f_name field))
                | PDFRadioGroup \<Rightarrow> Some (Select (f_name field) (fieldValue formItem))
                | PDFOtherField \<Rightarrow> None)))"

definition supportedImage :: "world \<Rightarrow> string \<Rightarrow> bool" where
  "supportedImage w path =
     ((endsWith (toLowerCase path) ''.png'' \<and> files w path = Some PngImage)
      \<or> (\<not> endsWith (toLowerCase path) ''.png''
          \<and> (endsWith (toLowerCase path) ''.jpg'' \<or> endsWith (toLowerCase path) ''.jpeg'')
          \<and> files w path = Some JpgImage))"

definition signatureCall :: "world \<Rightarrow> document \<Rightarrow> SignatureOptions \<Rightarrow> doc_op option" where
  "signatureCall w d signature =
     (if truthyStr (s_imagePath signature) then
        (if supportedImage w (the (s_imagePath signature)) \<and> 0 < pageCount d
         then Some (DrawImage 0 (the (s_imagePath signature)) (s_position signature))
         else None)
      else if truthyStr (s_text signature) \<and> 0 < pageCount d then
        Some (DrawText 0 (the (s_text signature)) (s_position signature)
                (orNum (s_fontSize signature) (Num 12)) (defaultColor (s_color signature)))
      else None)"

definition textCall :: "document \<Rightarrow> TextInsertion \<Rightarrow> doc_op option" where
  "textCall d textItem =
     (if hasPage d (pageIndexOf (t_pageNumber textItem)) then
        Some (DrawText (nat (pageIndexOf (t_pageNumber textItem))) (t_text textItem)
                (t_position textItem) (orNum (t_fontSize textItem) (Num 12))
                (defaultColor (t_color textItem)))
      else None)"

definition imageCall :: "world \<Rightarrow> document \<Rightarrow> ImageInsertion \<Rightarrow> doc_op option" where
  "imageCall w d imageItem =
     (if hasPage d (pageIndexOf (i_pageNumber imageItem))
         \<and> supportedImage w (i_imagePath imageItem) then
        Some (DrawImage (nat (pageIndexOf (i_pageNumber imageItem))) (i_imagePath imageItem)
                (i_position imageItem))
      else None)"

text \<open>
  The calls that change the document, for a list of edits: those of the edits that
  are not skipped and whose call does not throw, in the order of the list.
\<close>

definition appliedOps :: "world \<Rightarrow> ('e \<Rightarrow> doc_op option) \<Rightarrow> 'e list \<Rightarrow> doc_op list" where
  "appliedOps w call edits =
     concat (map (\<lambda>e. case call e of
                         None \<Rightarrow> []
                       | Some op \<Rightarrow> if libThrows w op then [] else [op]) edits)"

section \<open>The command line (\<open>cli.ts\<close>)\<close>

text \<open>
  The options of \<open>modify\<close> and \<open>batch-modify\<close> as the argument parser delivers them:
  strings with their defaults, flags as booleans, \<open>--fill-form\<close> as the list of its
  values.
\<close>

record cli_options =
  o_pattern :: string
  o_addSignature :: "string option"
  o_signaturePosition :: string
  o_fillForm :: "string list"
  o_addText :: "string option"
  o_textPosition :: string
  o_textPage :: string
  o_fontSize :: string
  o_allPages :: bool
  o_config :: "string option"
  o_template :: "string option"
  o_previewOnly :: bool
  o_parallel :: bool

text \<open>\<open>s.split(',').map((x) => parseFloat(x.trim()))\<close>.\<close>

definition positionParts :: "string \<Rightarrow> jsnum list" where
  "positionParts s = map (\<lambda>x. parseFloat (trim x)) (split CHR '','' s)"

text \<open>The number \<open>parseInt\<close> returns, as a JavaScript number.\<close>

definition numOfInt :: "int option \<Rightarrow> jsnum" where
  "numOfInt v = (case v of None \<Rightarrow> NaN | Some i \<Rightarrow> Num (of_int i))"

text \<open>The form-filling loop, the same in both commands.\<close>

definition parseFillForm :: "string list \<Rightarrow> FormFillData list" where
  "parseFillForm fillFormOptions =
     concat (map (\<lambda>formItem.
       if CHR '':'' \<in> set formItem then
         (case split CHR '':'' formItem of
            [] \<Rightarrow> []
          | name # valueParts \<Rightarrow>
              [\<lparr>fieldName = trim name,
                fieldValue = StrVal (trim (joinWith '':'' valueParts)),
                fieldType = None\<rparr>])
       else []) fillFormOptions)"

subsection \<open>The \<open>modify\<close> command\<close>

text \<open>
  The signature block of \<open>modify\<close>: the position must split into four parts; the
  parts are not tested for being numbers.
\<close>

definition modifySignatures :: "cli_options \<Rightarrow> js_error + SignatureOptions list" where
  "modifySignatures opts =
     (if truthyStr (o_addSignature opts) then
        (let parts = positionParts (o_signaturePosition opts) in
         if length parts \<noteq> 4 then Inl (Message ''Signature position must be x1,y1,x2,y2'')
         else Inr [\<lparr>s_position = parts, s_imagePath = o_addSignature opts, s_text = None,
                    s_fontSize = None, s_color = None\<rparr>])
      else Inr [])"

definition cliText :: "cli_options \<Rightarrow> jsnum list \<Rightarrow> TextInsertion" where
  "cliText opts parts =
     \<lparr>t_text = the (o_addText opts), t_position = parts,
      t_pageNumber = parseInt (o_textPage opts),
      t_fontSize = Some (numOfInt (parseInt (o_fontSize opts))),
      t_color = None, t_fontName = None\<rparr>"

definition modifyTexts :: "cli_options \<Rightarrow> js_error + TextInsertion list" where
  "modifyTexts opts =
     (if truthyStr (o_addText opts) then
        (let parts = positionParts (o_textPosition opts) in
         if length parts \<noteq> 2 then Inl (Message ''Text position must be x,y'')
         else Inr [cliText opts parts])
      else Inr [])"

text \<open>
  The action of \<open>modify\<close>: the exit code of the process, and the result of the
  modifier when it was called. An error thrown while the options are parsed and a
  failed result both end in \<open>process.exit(1)\<close>; no edit at all returns early.
\<close>

definition modifyAction ::
  "world \<Rightarrow> string \<Rightarrow> string \<Rightarrow> cli_options \<Rightarrow>
   nat \<times> (PDFModificationResult \<times> (string \<times> document) option) option" where
  "modifyAction w input output opts =
     (case modifySignatures opts of
        Inl e \<Rightarrow> (1, None)
      | Inr signatures \<Rightarrow>
          (let formData = parseFillForm (o_fillForm opts) in
           case modifyTexts opts of
             Inl e \<Rightarrow> (1, None)
           | Inr texts \<Rightarrow>
               if length signatures = 0 \<and> length formData = 0 \<and> length texts = 0
               then (0, None)
               else (let r = modifyPdf w input output signatures formData texts [] in
                     if success (fst r) then (0, Some r) else (1, Some r))))"

subsection \<open>Building the request of \<open>batch-modify\<close>\<close>

text \<open>
  The \<open>modifications\<close> object: the keys the command reads, each present or absent,
  and the names of any other keys a configuration file brings.
\<close>

record modifications =
  m_signatures :: "SignatureOptions list option"
  m_formData :: "FormFillData list option"
  m_textInsertions :: "TextInsertion list option"
  m_allPages :: "bool option"
  m_otherKeys :: "string list"

definition emptyMods :: modifications where
  "emptyMods = \<lparr>m_signatures = None, m_formData = None, m_textInsertions = None,
                m_allPages = None, m_otherKeys = []\<rparr>"

text \<open>\<open>{ ...a, ...b }\<close>: a key of \<open>b\<close> replaces the same key of \<open>a\<close>.\<close>

definition later :: "'a option \<Rightarrow> 'a option \<Rightarrow> 'a option" where
  "later a b = (case b of None \<Rightarrow> a | Some v \<Rightarrow> Some v)"

definition spread :: "modifications \<Rightarrow> modifications \<Rightarrow> modifications" where
  "spread a b =
     \<lparr>m_signatures = later (m_signatures a) (m_signatures b),
      m_formData = later (m_formData a) (m_formData b),
      m_textInsertions = later (m_textInsertions a) (m_textInsertions b),
      m_allPages = later (m_allPages a) (m_allPages b),
      m_otherKeys = m_otherKeys a @ filter (\<lambda>k. k \<notin> set (m_otherKeys a)) (m_otherKeys b)\<rparr>"

text \<open>\<open>Object.keys(modifications).length === 0\<close>.\<close>

definition noKeys :: "modifications \<Rightarrow> bool" where
  "noKeys m = (m_signatures m = None \<and> m_formData m = None \<and> m_textInsertions m = None
               \<and> m_allPages m = None \<and> m_otherKeys m = [])"

text \<open>\<open>xs || []\<close> on a list that may be absent.\<close>

definition orEmpty :: "'a list option \<Rightarrow> 'a list" where
  "orEmpty xs = (case xs of None \<Rightarrow> [] | Some l \<Rightarrow> l)"

text \<open>The number of edits of a request, over the three kinds it can hold.\<close>

definition editCount :: "modifications \<Rightarrow> nat" where
  "editCount m = length (orEmpty (m_signatures m)) + length (orEmpty (m_formData m))
                 + length (orEmpty (m_textInsertions m))"

text \<open>
  A reading of the clock: the strings \<open>toISOString()\<close> and \<open>toTimeString()\<close> give.
\<close>

record datetime =
  isoString :: string
  timeString :: string

definition firstPart :: "char \<Rightarrow> string \<Rightarrow> string" where
  "firstPart sep s = (case split sep s of [] \<Rightarrow> [] | x # _ \<Rightarrow> x)"

definition templateText :: "string \<Rightarrow> jsnum list \<Rightarrow> jsnum \<Rightarrow> TextInsertion" where
  "templateText s pos sz =
     \<lparr>t_text = s, t_position = pos, t_pageNumber = None, t_fontSize = Some sz,
      t_color = None, t_fontName = None\<rparr>"

text \<open>
  Names that the lookup \<open>templates[templateName]\<close> finds on the prototype of the
  table: the value is truthy and spreads no key.
\<close>

definition inheritedNames :: "string list" where
  "inheritedNames = [''constructor'', ''toString'', ''toLocaleString'', ''valueOf'',
     ''hasOwnProperty'', ''isPrototypeOf'', ''propertyIsEnumerable'', ''__proto__'',
     ''__defineGetter__'', ''__defineSetter__'', ''__lookupGetter__'', ''__lookupSetter__'']"

text \<open>
  \<open>loadModificationTemplate\<close>: each call builds the whole table, which evaluates
  \<open>new Date()\<close> three times; \<open>clock k\<close> is the \<open>k\<close>-th of these readings.
\<close>

definition loadModificationTemplate :: "(nat \<Rightarrow> datetime) \<Rightarrow> string \<Rightarrow> modifications option" where
  "loadModificationTemplate clock templateName =
     (if templateName = ''approval-stamp'' then
        Some (emptyMods\<lparr>m_textInsertions := Some
          [templateText ''APPROVED'' [Num 450, Num 50] (Num 16),
           templateText (''Date: '' @ firstPart CHR ''T'' (isoString (clock 0)))
             [Num 450, Num 30] (Num 10)]\<rparr>)
      else if templateName = ''confidential-watermark'' then
        Some (emptyMods\<lparr>m_textInsertions := Some
          [templateText ''CONFIDENTIAL'' [Num 200, Num 400] (Num 48)],
          m_allPages := Some True\<rparr>)
      else if templateName = ''signature-bottom-right'' then
        Some (emptyMods\<lparr>m_signatures := Some
          [\<lparr>s_position = [Num 400, Num 50, Num 500, Num 100], s_imagePath = None,
            s_text = Some ''Authorized Signature'', s_fontSize = None, s_color = None\<rparr>]\<rparr>)
      else if templateName = ''review-stamp'' then
        Some (emptyMods\<lparr>m_textInsertions := Some
          [templateText ''REVIEWED'' [Num 50, Num 50] (Num 12),
           templateText (''Agent 2 - '' @ firstPart CHR ''T'' (isoString (clock 1)) @ '' ''
                         @ firstPart CHR '' '' (timeString (clock 2)))
             [Num 50, Num 30] (Num 8)]\<rparr>)
      else if templateName \<in> set inheritedNames then Some emptyMods
      else None)"

text \<open>
  What the command line of \<open>batch-modify\<close> reads besides the documents: the file
  search (taken to succeed), whether the output directory exists or can be made, the
  parsed content of a configuration file holding a JSON object (or the error of
  reading or parsing it), and the clock.
\<close>

record cli_env =
  glob :: "string \<Rightarrow> string list"
  ensureDir :: "string \<Rightarrow> bool"
  readConfig :: "string \<Rightarrow> js_error + modifications"
  clock :: "nat \<Rightarrow> datetime"

text \<open>The blocks of \<open>batch-modify\<close> that build edits from the flags: no length test.\<close>

definition batchSignatures :: "cli_options \<Rightarrow> SignatureOptions list" where
  "batchSignatures opts =
     (if truthyStr (o_addSignature opts) then
        [\<lparr>s_position = positionParts (o_signaturePosition opts),
          s_imagePath = o_addSignature opts, s_text = None,
          s_fontSize = None, s_color = None\<rparr>]
      else [])"

definition batchTexts :: "cli_options \<Rightarrow> TextInsertion list" where
  "batchTexts opts =
     (if truthyStr (o_addText opts) then [cliText opts (positionParts (o_textPosition opts))]
      else [])"

definition fromFlags :: "cli_options \<Rightarrow> modifications" where
  "fromFlags opts =
     \<lparr>m_signatures = Some (batchSignatures opts),
      m_formData = Some (parseFillForm (o_fillForm opts)),
      m_textInsertions = Some (batchTexts opts),
      m_allPages = Some (o_allPages opts),
      m_otherKeys = []\<rparr>"

text \<open>
  The request of \<open>batch-modify\<close>: the configuration file, then the template spread
  over it, and the flags only when neither left a key.
\<close>

definition loadConfig :: "cli_env \<Rightarrow> cli_options \<Rightarrow> js_error + modifications" where
  "loadConfig env opts =
     (if truthyStr (o_config opts) then readConfig env (the (o_config opts))
      else Inr emptyMods)"

definition applyTemplate :: "cli_env \<Rightarrow> cli_options \<Rightarrow> modifications \<Rightarrow> modifications" where
  "applyTemplate env opts m =
     (if truthyStr (o_template opts) then
        (case loadModificationTemplate (clock env) (the (o_template opts)) of
           Some templateConfig \<Rightarrow> spread m templateConfig
         | None \<Rightarrow> m)
      else m)"

definition buildModifications :: "cli_env \<Rightarrow> cli_options \<Rightarrow> js_error + modifications" where
  "buildModifications env opts =
     (case loadConfig env opts of
        Inl e \<Rightarrow> Inl e
      | Inr fromConfig \<Rightarrow>
          (let m = applyTemplate env opts fromConfig
           in Inr (if noKeys m then fromFlags opts else m)))"

subsection \<open>All-pages expansion (\<open>applyModificationsAllPages\<close>)\<close>

text \<open>
  The nested loop: pages outside, the base text insertions inside; each pushed
  object is built from four fields of the base item.
\<close>

definition expandAllPages :: "nat \<Rightarrow> TextInsertion list \<Rightarrow> TextInsertion list" where
  "expandAllPages pageCnt baseTextInsertions =
     concat (map (\<lambda>pageNum.
       map (\<lambda>textItem.
         \<lparr>t_text = t_text textItem,
          t_position = t_position textItem,
          t_pageNumber = Some (int pageNum),
          t_fontSize = t_fontSize textItem,
          t_color = None,
          t_fontName = None\<rparr>) baseTextInsertions) [0..<pageCnt])"

text \<open>
  The document is read and loaded once for its page count, outside any \<open>try\<close> of
  the function, and then handed to \<open>modifyPdf\<close> with the expanded text insertions.
\<close>

definition applyModificationsAllPages ::
  "world \<Rightarrow> string \<Rightarrow> string \<Rightarrow> modifications \<Rightarrow>
   js_error + (PDFModificationResult \<times> (string \<times> document) option)" where
  "applyModificationsAllPages w inputPath outPath mods =
     (case files w inputPath of
        None \<Rightarrow> Inl (FileReadError inputPath)
      | Some (PdfFile pdfDoc) \<Rightarrow>
          Inr (modifyPdf w inputPath outPath
                 (orEmpty (m_signatures mods)) (orEmpty (m_formData mods))
                 (expandAllPages (pageCount pdfDoc) (orEmpty (m_textInsertions mods))) [])
      | Some _ \<Rightarrow> Inl (PdfLoadError inputPath))"

subsection \<open>The \<open>batch-modify\<close> command\<close>

text \<open>
  \<open>path.basename\<close> and \<open>path.join\<close> on paths with \<open>/\<close> as separator; the
  normalisation \<open>path.join\<close> does is left out.
\<close>

definition basename :: "string \<Rightarrow> string" where
  "basename p = (case rev (split CHR ''/'' p) of [] \<Rightarrow> [] | x # _ \<Rightarrow> x)"

definition pathJoin :: "string \<Rightarrow> string \<Rightarrow> string" where
  "pathJoin a b = a @ ''/'' @ b"

text \<open>
  An entry of \<open>results\<close>: \<open>{file, status: 'success', modifications, time}\<close> or
  \<open>{file, status: 'failed', error}\<close>.
\<close>

datatype result_entry =
    Succeeded string nat int
  | Failed string "js_error option"

text \<open>
  The body run for one file, the same in both branches: the dispatch on
  \<open>options.allPages && modifications.textInsertions?.length > 0\<close>, the entry made
  from the result, and the \<open>catch\<close> around both. The second component is the file
  the modifier wrote, if any. The outcome of a file is a function of that file and
  the environment: what one file's run writes is not read by the run of another, and
  the elapsed time is the environment's.
\<close>

definition processFile ::
  "world \<Rightarrow> string \<Rightarrow> cli_options \<Rightarrow> modifications \<Rightarrow> string \<Rightarrow>
   result_entry \<times> (string \<times> document) option" where
  "processFile w outputDir opts mods file =
     (let outputFile = pathJoin outputDir (basename file) in
      case (if o_allPages opts \<and> length (orEmpty (m_textInsertions mods)) > 0
            then applyModificationsAllPages w file outputFile mods
            else Inr (modifyPdf w file outputFile
                        (orEmpty (m_signatures mods)) (orEmpty (m_formData mods))
                        (orEmpty (m_textInsertions mods)) [])) of
        Inl e \<Rightarrow> (Failed (basename file) (Some e), None)
      | Inr r \<Rightarrow>
          if success (fst r)
          then (Succeeded (basename file) (modificationsApplied (fst r))
                  (processingTime (fst r)), snd r)
          else (Failed (basename file) (errorMessage (fst r)), snd r))"

text \<open>
  \<open>Promise.all\<close>: each promise, when it settles, stores its value at its own index;
  the array is delivered once every index is filled. \<open>order\<close> is the order in which
  the promises settle.
\<close>

definition promiseAll :: "nat list \<Rightarrow> 'a list \<Rightarrow> 'a list option" where
  "promiseAll order vals =
     those (foldl (\<lambda>slots i. if i < length vals then slots[i := Some (vals ! i)] else slots)
              (replicate (length vals) None) order)"

text \<open>The sequential loop: \<open>results.push\<close> after each file.\<close>

definition sequentialResults :: "(string \<Rightarrow> 'a) \<Rightarrow> string list \<Rightarrow> 'a list" where
  "sequentialResults body fs = foldl (\<lambda>results file. results @ [body file]) [] fs"

text \<open>The parallel branch: \<open>files.map\<close> of the body, then \<open>Promise.all\<close>.\<close>

definition parallelResults :: "nat list \<Rightarrow> (string \<Rightarrow> 'a) \<Rightarrow> string list \<Rightarrow> 'a list option" where
  "parallelResults order body fs = promiseAll order (map body fs)"

fun isSuccess :: "result_entry \<Rightarrow> bool" where
  "isSuccess (Succeeded _ _ _) = True"
| "isSuccess (Failed _ _) = False"

fun entryModifications :: "result_entry \<Rightarrow> nat" where
  "entryModifications (Succeeded _ n _) = n"
| "entryModifications (Failed _ _) = 0"


text \<open>
  What a run of \<open>batch-modify\<close> leaves: the exit code, the entries of \<open>results\<close>,
  for each entry the file written for it (if any), and the three numbers of the
  printed summary.
\<close>

record batch_run =
  exitCode :: nat
  results :: "result_entry list"
  outputs :: "(string \<times> document) option list"
  successful :: nat
  failed :: nat
  totalModifications :: nat

definition finishBatch :: "(result_entry \<times> (string \<times> document) option) list \<Rightarrow> batch_run" where
  "finishBatch rs =
     \<lparr>exitCode = 0, results = map fst rs, outputs = map snd rs,
      successful = length (filter isSuccess (map fst rs)),
      failed = length (map fst rs) - length (filter isSuccess (map fst rs)),
      totalModifications =
        sum_list (map entryModifications (filter isSuccess (map fst rs)))\<rparr>"

definition earlyExit :: "nat \<Rightarrow> batch_run" where
  "earlyExit code = \<lparr>exitCode = code, results = [], outputs = [], successful = 0,
                      failed = 0, totalModifications = 0\<rparr>"

text \<open>The files found: the matches of the pattern that end in \<open>.pdf\<close>, in any case.\<close>

definition discoverFiles :: "cli_env \<Rightarrow> string \<Rightarrow> cli_options \<Rightarrow> string list" where
  "discoverFiles env inputDir opts =
     filter (\<lambda>file. endsWith (toLowerCase file) ''.pdf'')
       (glob env (pathJoin inputDir (o_pattern opts)))"

text \<open>
  The action of \<open>batch-modify\<close>. \<open>order\<close> is the order in which the promises of the
  parallel branch settle; the action does not finish (\<open>None\<close>) while one of them has
  not settled. An error of the output directory or of the configuration file ends in
  \<open>process.exit(1)\<close>; no matching file and the preview return early; after the files
  are processed the action ends without a call of \<open>process.exit\<close>.
\<close>

definition batchModifyAction ::
  "world \<Rightarrow> cli_env \<Rightarrow> nat list \<Rightarrow> string \<Rightarrow> string \<Rightarrow> cli_options \<Rightarrow> batch_run option" where
  "batchModifyAction w env order inputDir outputDir opts =
     (if \<not> ensureDir env outputDir then Some (earlyExit 1)
      else
        (let fs = discoverFiles env inputDir opts in
         if length fs = 0 then Some (earlyExit 0)
         else
           (case buildModifications env opts of
              Inl e \<Rightarrow> Some (earlyExit 1)
            | Inr mods \<Rightarrow>
                if o_previewOnly opts then Some (earlyExit 0)
                else if o_parallel opts \<and> length fs > 1 then
                  map_option finishBatch
                    (parallelResults order (processFile w outputDir opts mods) fs)
                else Some (finishBatch
                             (sequentialResults (processFile w outputDir opts mods) fs)))))"

section \<open>Text extraction (\<open>PdfParser\<close>)\<close>

text \<open>The configuration; every key may be absent (\<open>None\<close>).\<close>

record PdfConfig =
  extractMetadata :: "bool option"
  extractImages :: "bool option"
  includePageInfo :: "bool option"
  outputFormat :: "string option"
  safetyChecks :: "bool option"
  maxPages :: "nat option"
  password :: "string option"

text \<open>The constructor: the defaults, with the keys of the given configuration over them.\<close>

definition PdfParser :: "PdfConfig \<Rightarrow> PdfConfig" where
  "PdfParser config =
     \<lparr>extractMetadata = later (Some True) (extractMetadata config),
      extractImages = later (Some False) (extractImages config),
      includePageInfo = later (Some False) (includePageInfo config),
      outputFormat = later (Some ''text'') (outputFormat config),
      safetyChecks = later (Some True) (safetyChecks config),
      maxPages = maxPages config,
      password = password config\<rparr>"

record PageInfo =
  pageNumber :: int
  content :: string

text \<open>The metadata is carried as the list of its entries; no property here reads it.\<close>

type_synonym PdfMetadata = "(string \<times> string) list"

record PdfData =
  d_text :: string
  d_pages :: "PageInfo list option"
  d_metadata :: "PdfMetadata option"
  d_totalPages :: int

datatype parse_error = Issue string | ParsingFailed js_error

record ProcessingResult =
  r_success :: bool
  r_data :: "PdfData option"
  r_metadata :: "PdfMetadata option"
  r_warnings :: "string list"
  r_errors :: "parse_error list"
  r_processingTime :: "int option"

text \<open>What the text-extraction library returns for a file.\<close>

record pdf_parse_output =
  pp_text :: string
  pp_numpages :: nat
  pp_info :: "PdfMetadata option"

text \<open>
  The environment of the parser: the issues \<open>SafetyManager.validateFile\<close> reports
  for a path (the file is safe when there are none), what reading and parsing the
  file gives, and the time parsing takes.
\<close>

record parser_env =
  validateFile :: "string \<Rightarrow> string list"
  pdfParse :: "string \<Rightarrow> js_error + pdf_parse_output"
  parseElapsed :: "string \<Rightarrow> int"

text \<open>\<open>String.prototype.slice(start, end)\<close> with indices inside the string or beyond it.\<close>

definition slice :: "string \<Rightarrow> nat \<Rightarrow> nat \<Rightarrow> string" where
  "slice s start end = drop start (take end s)"

definition splitTextIntoPages :: "string \<Rightarrow> nat \<Rightarrow> string list" where
  "splitTextIntoPages txt pageCnt =
     (if pageCnt = 1 then [txt]
      else
        (let formFeedPages = split (char_of (12 :: nat)) txt in
         if length formFeedPages = pageCnt then formFeedPages
         else
           (let avgLength = (length txt + pageCnt - 1) div pageCnt in
            map (\<lambda>i. slice txt (i * avgLength) (min ((i + 1) * avgLength) (length txt)))
              [0..<pageCnt])))"

definition extractPageInfo :: "pdf_parse_output \<Rightarrow> PageInfo list" where
  "extractPageInfo pdfData =
     (let textPages = splitTextIntoPages (pp_text pdfData) (pp_numpages pdfData) in
      map (\<lambda>i. \<lparr>pageNumber = int i + 1, content = textPages ! i\<rparr>) [0..<length textPages])"

text \<open>
  \<open>parseFile\<close>: a failed safety validation returns its issues; an error of reading
  or parsing is caught and reported; per-page information is produced only when
  \<open>includePageInfo\<close> is on.
\<close>

definition parseFile :: "parser_env \<Rightarrow> PdfConfig \<Rightarrow> string \<Rightarrow> ProcessingResult" where
  "parseFile env config filePath =
     (let failedWith = (\<lambda>errs. \<lparr>r_success = False, r_data = None, r_metadata = None,
                              r_warnings = [], r_errors = errs, r_processingTime = None\<rparr>) in
      if safetyChecks config = Some True \<and> validateFile env filePath \<noteq> []
      then failedWith (map Issue (validateFile env filePath))
      else
        (case pdfParse env filePath of
           Inl e \<Rightarrow> failedWith [ParsingFailed e]
         | Inr pdfData \<Rightarrow>
             (let meta = (if extractMetadata config = Some True then pp_info pdfData else None);
                  parsedData =
                    \<lparr>d_text = pp_text pdfData,
                     d_pages = (if includePageInfo config = Some True
                                then Some (extractPageInfo pdfData) else None),
                     d_metadata = meta,
                     d_totalPages = int (pp_numpages pdfData)\<rparr>
              in \<lparr>r_success = True, r_data = Some parsedData, r_metadata = meta,
                  r_warnings = [], r_errors = [],
                  r_processingTime = Some (parseElapsed env filePath)\<rparr>)))"

section \<open>Page ranges (\<open>PdfParser.parsePageRange\<close>)\<close>

text \<open>\<open>if (!pages.includes(i)) pages.push(i)\<close>.\<close>

definition pushNew :: "int list \<Rightarrow> int \<Rightarrow> int list" where
  "pushNew pages i = (if i \<in> set pages then pages else pages @ [i])"

text \<open>
  One iteration of the loop over the comma-separated parts. In the dash branch the
  destructuring \<open>[start, end]\<close> takes the first two tokens; when either is \<open>NaN\<close> the
  loop condition \<open>i <= Math.min(end, totalPages)\<close> is false at once.
\<close>

definition parsePart :: "int \<Rightarrow> int list \<Rightarrow> string \<Rightarrow> int list" where
  "parsePart totalPages pages part =
     (if CHR ''-'' \<in> set part then
        (case map (\<lambda>n. parseInt (trim n)) (split CHR ''-'' part) of
           Some start # Some end # _ \<Rightarrow> foldl pushNew pages [start..min end totalPages]
         | _ \<Rightarrow> pages)
      else
        (case parseInt (trim part) of
           Some pageNum \<Rightarrow>
             if pageNum \<ge> 1 \<and> pageNum \<le> totalPages \<and> pageNum \<notin> set pages
             then pages @ [pageNum] else pages
         | None \<Rightarrow> pages))"

definition parsePageRange :: "string \<Rightarrow> int \<Rightarrow> int list" where
  "parsePageRange rangeSpec totalPages =
     sort (foldl (parsePart totalPages) [] (split CHR '','' rangeSpec))"

text \<open>
  \<open>extractPages\<close>: without per-page information the whole text is returned;
  otherwise the pages of the range that exist, joined by an empty line.
\<close>

definition extractPages :: "parser_env \<Rightarrow> PdfConfig \<Rightarrow> string \<Rightarrow> string \<Rightarrow> js_error + string" where
  "extractPages env config filePath pageRange =
     (let result = parseFile env config filePath in
      case (if r_success result then r_data result else None) of
        None \<Rightarrow> Inl (Message ''Failed to parse PDF'')
      | Some d \<Rightarrow>
          (case d_pages d of
             None \<Rightarrow> Inr (d_text d)
           | Some pgs \<Rightarrow>
               Inr (joinWith [char_of (10 :: nat), char_of (10 :: nat)]
                      (map content
                         (concat (map (\<lambda>pageNum.
                            case find (\<lambda>p. pageNumber p = pageNum) pgs of
                              None \<Rightarrow> [] | Some p \<Rightarrow> [p])
                          (parsePageRange pageRange (d_totalPages d))))))))"

section \<open>Concrete inputs\<close>

text \<open>
  The options the argument parser delivers when no flag is given, a directory of
  three files of which the second is not a PDF, and an environment in which every
  library call, save and write succeeds.
\<close>

definition defaultOptions :: cli_options where
  "defaultOptions =
     \<lparr>o_pattern = ''*.pdf'', o_addSignature = None,
      o_signaturePosition = ''400,700,500,750'', o_fillForm = [], o_addText = None,
      o_textPosition = ''100,100'', o_textPage = ''0'', o_fontSize = ''12'',
      o_allPages = False, o_config = None, o_template = None, o_previewOnly = False,
      o_parallel = False\<rparr>"

definition sampleDoc :: "nat \<Rightarrow> document" where
  "sampleDoc n = \<lparr>pageCount = n,
                  formFields = Some [\<lparr>f_name = ''status'', f_kind = PDFTextField\<rparr>],
                  ops = []\<rparr>"

definition sampleWorld :: world where
  "sampleWorld =
     \<lparr>files = (\<lambda>p. if p = ''in/a.pdf'' then Some (PdfFile (sampleDoc 3))
                   else if p = ''in/b.pdf'' then Some OtherContent
                   else if p = ''in/c.pdf'' then Some (PdfFile (sampleDoc 1))
                   else None),
      libThrows = (\<lambda>_. False),
      saveThrows = (\<lambda>_. False),
      writable = (\<lambda>_. True),
      elapsed = (\<lambda>_. 5)\<rparr>"

definition sampleEnv :: cli_env where
  "sampleEnv =
     \<lparr>glob = (\<lambda>_. [''in/a.pdf'', ''in/b.pdf'', ''in/c.pdf'']),
      ensureDir = (\<lambda>_. True),
      readConfig = (\<lambda>p. Inl (ConfigError p)),
      clock = (\<lambda>_. \<lparr>isoString = ''2024-05-06T07:08:09.000Z'',
                     timeString = ''07:08:09 GMT+0000 (UTC)''\<rparr>)\<rparr>"

definition noConfig :: PdfConfig where
  "noConfig = \<lparr>extractMetadata = None, extractImages = None, includePageInfo = None,
               outputFormat = None, safetyChecks = None, maxPages = None,
               password = None\<rparr>"

definition sampleParserEnv :: parser_env where
  "sampleParserEnv =
     \<lparr>validateFile = (\<lambda>_. []),
      pdfParse = (\<lambda>_. Inr \<lparr>pp_text = ''abcdefg'', pp_numpages = 3, pp_info = None\<rparr>),
      parseElapsed = (\<lambda>_. 1)\<rparr>"

text \<open>
  A form item that names a field the sample documents do not have, a text insertion
  on a page they do not have, and one on their first page.
\<close>

definition absentFieldItem :: FormFillData where
  "absentFieldItem = \<lparr>fieldName = ''missing'', fieldValue = StrVal ''x'', fieldType = None\<rparr>"

definition lostPageText :: TextInsertion where
  "lostPageText = \<lparr>t_text = ''DRAFT'', t_position = [Num 10, Num 10], t_pageNumber = Some 7,
                   t_fontSize = None, t_color = None, t_fontName = None\<rparr>"

definition firstPageText :: TextInsertion where
  "firstPageText = \<lparr>t_text = ''APPROVED'', t_position = [Num 450, Num 50],
                    t_pageNumber = Some 0, t_fontSize = None, t_color = None,
                    t_fontName = None\<rparr>"

text \<open>
  The options of \<open>batch-modify --template approval-stamp --add-text "Reviewed by QA"\<close>,
  of \<open>batch-modify --template confidential-watermark\<close>, and of \<open>modify\<close> with a
  signature whose position has four parts that are not numbers, or three parts.
\<close>

definition stampAndTextOptions :: cli_options where
  "stampAndTextOptions =
     defaultOptions\<lparr>o_template := Some ''approval-stamp'',
                    o_addText := Some ''Reviewed by QA''\<rparr>"

definition watermarkOptions :: cli_options where
  "watermarkOptions = defaultOptions\<lparr>o_template := Some ''confidential-watermark''\<rparr>"

definition lettersPositionOptions :: cli_options where
  "lettersPositionOptions =
     defaultOptions\<lparr>o_addSignature := Some ''sig.png'', o_signaturePosition := ''a,b,c,d''\<rparr>"

definition threePartsOptions :: cli_options where
  "threePartsOptions =
     defaultOptions\<lparr>o_addSignature := Some ''sig.png'',
                    o_signaturePosition := ''400,700,500''\<rparr>"

definition fourPartsOptions :: cli_options where
  "fourPartsOptions = defaultOptions\<lparr>o_addSignature := Some ''sig.png''\<rparr>"

text \<open>A text insertion with a colour, as a configuration file can give it.\<close>

definition redText :: TextInsertion where
  "redText = \<lparr>t_text = ''URGENT'', t_position = [Num 50, Num 700], t_pageNumber = None,
              t_fontSize = Some (Num 20), t_color = Some [Num 1, Num 0, Num 0],
              t_fontName = None\<rparr>"

text \<open>
  An environment in which no file can be read, the options of
  \<open>--template approval-stamp\<close> alone, and those of \<open>--add-text\<close> alone.
\<close>

definition brokenWorld :: world where
  "brokenWorld = sampleWorld\<lparr>files := (\<lambda>_. None)\<rparr>"


definition textOptions :: cli_options where
  "textOptions = defaultOptions\<lparr>o_addText := Some ''APPROVED''\<rparr>"

section \<open>Properties of the page ranges\<close>

lemma pushNew_distinct: "distinct pages \<Longrightarrow> distinct (pushNew pages i)"
  by (simp add: pushNew_def)

lemma foldl_pushNew_distinct: "distinct pages \<Longrightarrow> distinct (foldl pushNew pages xs)"
  by (induction xs arbitrary: pages) (simp_all add: pushNew_distinct)

lemma foldl_pushNew_set: "set (foldl pushNew pages xs) = set pages \<union> set xs"
  by (induction xs arbitrary: pages) (auto simp: pushNew_def)

lemma parsePart_distinct: "distinct pages \<Longrightarrow> distinct (parsePart tp pages part)"
  by (auto simp: parsePart_def foldl_pushNew_distinct split: list.splits option.splits)

lemma parsePart_upper:
  "\<forall>p \<in> set pages. p \<le> tp \<Longrightarrow> \<forall>p \<in> set (parsePart tp pages part). p \<le> tp"
  by (auto simp: parsePart_def foldl_pushNew_set split: list.splits option.splits)

lemma foldl_parsePart_distinct:
  "distinct pages \<Longrightarrow> distinct (foldl (parsePart tp) pages parts)"
  by (induction parts arbitrary: pages) (simp_all add: parsePart_distinct)

lemma foldl_parsePart_upper:
  "\<forall>p \<in> set pages. p \<le> tp \<Longrightarrow> \<forall>p \<in> set (foldl (parsePart tp) pages parts). p \<le> tp"
proof (induction parts arbitrary: pages)
  case Nil
  then show ?case by simp
next
  case (Cons part parts)
  from Cons.prems have "\<forall>p \<in> set (parsePart tp pages part). p \<le> tp"
    by (rule parsePart_upper)
  then show ?case using Cons.IH by simp
qed

text \<open>
  The result is strictly ascending, hence free of duplicates, and no page of it is
  above \<open>totalPages\<close>, for every range string.
\<close>

lemma parsePageRange_ascending: "sorted_wrt (<) (parsePageRange r tp)"
  by (simp add: parsePageRange_def strict_sorted_iff foldl_parsePart_distinct)

lemma parsePageRange_upper: "p \<in> set (parsePageRange r tp) \<Longrightarrow> p \<le> tp"
  using foldl_parsePart_upper [of "[]" tp "split CHR '','' r"]
  by (simp add: parsePageRange_def)

text \<open>The two examples of the specification.\<close>

lemma parsePageRange_degenerate: "parsePageRange ''5-3,2'' 10 = [2]"
  by code_simp

lemma parsePageRange_mixed: "parsePageRange ''1,3,5-7,100'' 6 = [1, 3, 5, 6]"
  by code_simp

text \<open>
  C4. The claim: for every range string and every \<open>totalPages\<close> the result of
  \<open>parsePageRange\<close> is strictly ascending, without duplicates, and holds no value
  outside \<open>[1, totalPages]\<close>. The dash branch clips the end of a range to
  \<open>totalPages\<close> but never tests its start against 1, as the branch of a bare number
  does: the range \<open>0-2\<close> on a document of 5 pages yields page 0.
\<close>

theorem parsePageRange_start_below_one: "parsePageRange ''0-2'' 5 = [0, 1, 2]"
  by code_simp

section \<open>Properties of the text extraction\<close>

text \<open>
  C10. When \<open>parseFile\<close> succeeds for a parser whose configuration leaves
  \<open>includePageInfo\<close> off (absent, the default, or false), \<open>extractPages\<close> returns the
  whole text the extraction library gave, whatever the page-range string is.
\<close>

theorem extractPages_without_page_info:
  assumes "includePageInfo given \<noteq> Some True"
      and "r_success (parseFile env (PdfParser given) filePath)"
  shows "\<exists>out. pdfParse env filePath = Inr out
           \<and> extractPages env (PdfParser given) filePath pageRange = Inr (pp_text out)"
proof -
  have off: "includePageInfo (PdfParser given) \<noteq> Some True"
    using assms(1) by (cases "includePageInfo given") (simp_all add: PdfParser_def later_def)
  from assms(2) obtain out where out: "pdfParse env filePath = Inr out"
    by (cases "pdfParse env filePath") (auto simp: parseFile_def Let_def split: if_splits)
  from assms(2)
  have safe: "\<not> (safetyChecks (PdfParser given) = Some True \<and> validateFile env filePath \<noteq> [])"
    by (auto simp: parseFile_def Let_def split: if_splits)
  have "extractPages env (PdfParser given) filePath pageRange = Inr (pp_text out)"
    using out off safe by (simp add: extractPages_def parseFile_def Let_def)
  with out show ?thesis by blast
qed

theorem extractPages_without_page_info_witness:
  "includePageInfo noConfig \<noteq> Some True
   \<and> r_success (parseFile sampleParserEnv (PdfParser noConfig) ''doc.pdf'')
   \<and> extractPages sampleParserEnv (PdfParser noConfig) ''doc.pdf'' ''2'' = Inr ''abcdefg''"
proof -
  have h1: "includePageInfo noConfig \<noteq> Some True"
    by (simp add: noConfig_def)
  have h2: "r_success (parseFile sampleParserEnv (PdfParser noConfig) ''doc.pdf'')"
    by (simp add: parseFile_def sampleParserEnv_def PdfParser_def noConfig_def later_def)
  from extractPages_without_page_info [OF h1 h2, of "''2''"]
  have "extractPages sampleParserEnv (PdfParser noConfig) ''doc.pdf'' ''2'' = Inr ''abcdefg''"
    by (auto simp: sampleParserEnv_def)
  with h1 h2 show ?thesis by simp
qed

section \<open>Properties of the position parsing\<close>

lemma positionParts_length: "length (positionParts s) = length (split CHR '','' s)"
  by (simp add: positionParts_def)

lemma positionParts_default: "positionParts ''400,700,500,750'' = [Num 400, Num 700, Num 500, Num 750]"
  by code_simp

text \<open>
  C5. The claim: parsing a box fails for every input that does not split into four
  numeric tokens. In \<open>modify\<close> the position \<open>a,b,c,d\<close> is accepted: the four parts
  are not numbers and become \<open>NaN\<close>.
\<close>

theorem modify_accepts_non_numeric_position:
  "modifySignatures lettersPositionOptions =
     Inr [\<lparr>s_position = [NaN, NaN, NaN, NaN], s_imagePath = Some ''sig.png'', s_text = None,
           s_fontSize = None, s_color = None\<rparr>]"
  by code_simp

text \<open>The signature block of \<open>batch-modify\<close> has no test of the length at all.\<close>

lemma batch_accepts_three_parts:
  "batchSignatures threePartsOptions =
     [\<lparr>s_position = [Num 400, Num 700, Num 500], s_imagePath = Some ''sig.png'', s_text = None,
       s_fontSize = None, s_color = None\<rparr>]"
  by code_simp

text \<open>
  C5, as amended. In \<open>modify\<close>, when a signature is requested, parsing its position
  fails exactly when the string does not split at commas into four parts; otherwise
  it returns the four values \<open>parseFloat\<close> gives for the trimmed parts, numbers or
  not. So \<open>400,700,500\<close> fails and \<open>400,700,500,750\<close> gives \<open>(400, 700, 500, 750)\<close>.
\<close>

theorem modify_signature_position_four_parts:
  assumes "truthyStr (o_addSignature opts)"
  shows "modifySignatures opts =
           (if length (split CHR '','' (o_signaturePosition opts)) = 4
            then Inr [\<lparr>s_position = map (\<lambda>x. parseFloat (trim x))
                                       (split CHR '','' (o_signaturePosition opts)),
                       s_imagePath = o_addSignature opts, s_text = None,
                       s_fontSize = None, s_color = None\<rparr>]
            else Inl (Message ''Signature position must be x1,y1,x2,y2''))
         \<and> length (split CHR '','' ''400,700,500'') = 3
         \<and> map (\<lambda>x. parseFloat (trim x)) (split CHR '','' ''400,700,500,750'')
             = [Num 400, Num 700, Num 500, Num 750]"
proof -
  have general: "modifySignatures opts =
           (if length (split CHR '','' (o_signaturePosition opts)) = 4
            then Inr [\<lparr>s_position = map (\<lambda>x. parseFloat (trim x))
                                       (split CHR '','' (o_signaturePosition opts)),
                       s_imagePath = o_addSignature opts, s_text = None,
                       s_fontSize = None, s_color = None\<rparr>]
            else Inl (Message ''Signature position must be x1,y1,x2,y2''))"
    using assms by (simp add: modifySignatures_def positionParts_def Let_def)
  have three: "length (split CHR '','' ''400,700,500'') = 3"
    by code_simp
  have four: "map (\<lambda>x. parseFloat (trim x)) (split CHR '','' ''400,700,500,750'')
                = [Num 400, Num 700, Num 500, Num 750]"
    by code_simp
  from general three four show ?thesis by blast
qed

theorem modify_signature_position_four_parts_witness:
  "truthyStr (o_addSignature threePartsOptions)
   \<and> truthyStr (o_addSignature fourPartsOptions)
   \<and> modifySignatures threePartsOptions = Inl (Message ''Signature position must be x1,y1,x2,y2'')
   \<and> modifySignatures fourPartsOptions =
       Inr [\<lparr>s_position = [Num 400, Num 700, Num 500, Num 750], s_imagePath = Some ''sig.png'',
             s_text = None, s_fontSize = None, s_color = None\<rparr>]"
proof -
  have h3: "truthyStr (o_addSignature threePartsOptions)"
    by (simp add: threePartsOptions_def truthyStr_def)
  have h4: "truthyStr (o_addSignature fourPartsOptions)"
    by (simp add: fourPartsOptions_def truthyStr_def)
  have l3: "length (split CHR '','' (o_signaturePosition threePartsOptions)) = 3"
    by code_simp
  have l4: "length (split CHR '','' (o_signaturePosition fourPartsOptions)) = 4"
    by code_simp
  have p4: "map (\<lambda>x. parseFloat (trim x)) (split CHR '','' (o_signaturePosition fourPartsOptions))
              = [Num 400, Num 700, Num 500, Num 750]"
    by code_simp
  have i4: "o_addSignature fourPartsOptions = Some ''sig.png''"
    by (simp add: fourPartsOptions_def)
  from modify_signature_position_four_parts [OF h3] modify_signature_position_four_parts [OF h4]
  show ?thesis
    using h3 h4 by (simp add: l3 l4 p4 i4)
qed

section \<open>Properties of the single-document modifier\<close>

lemma tryOp_eq:
  "tryOp w (d, n) op = (if libThrows w op then (d, n) else (d\<lparr>ops := ops d @ [op]\<rparr>, n + 1))"
  by (simp add: tryOp_def)

lemma appliedOps_Nil: "appliedOps w call [] = []"
  by (simp add: appliedOps_def)

lemma appliedOps_Cons:
  "appliedOps w call (e # es) =
     (case call e of None \<Rightarrow> [] | Some op \<Rightarrow> if libThrows w op then [] else [op])
     @ appliedOps w call es"
  by (simp add: appliedOps_def)

text \<open>A loop whose body is one guarded library call appends the applied calls and counts them.\<close>

lemma foldl_body:
  assumes body: "\<And>x n e. body (d0\<lparr>ops := x\<rparr>, n) e =
             (case call e of None \<Rightarrow> (d0\<lparr>ops := x\<rparr>, n) | Some op \<Rightarrow> tryOp w (d0\<lparr>ops := x\<rparr>, n) op)"
  shows "foldl body (d0\<lparr>ops := x\<rparr>, n) edits =
           (d0\<lparr>ops := x @ appliedOps w call edits\<rparr>, n + length (appliedOps w call edits))"
proof (induction edits arbitrary: x n)
  case Nil
  show ?case by (simp add: appliedOps_Nil)
next
  case (Cons e es)
  show ?case
  proof (cases "call e")
    case None
    then show ?thesis using Cons.IH [of x n] by (simp add: body appliedOps_Cons)
  next
    case (Some op)
    show ?thesis
    proof (cases "libThrows w op")
      case True
      then show ?thesis using Some Cons.IH [of x n] by (simp add: body appliedOps_Cons tryOp_eq)
    next
      case False
      then show ?thesis using Some Cons.IH [of "x @ [op]" "n + 1"]
        by (simp add: body appliedOps_Cons tryOp_eq)
    qed
  qed
qed

lemma formCall_ops [simp]: "formCall (d\<lparr>ops := x\<rparr>) = formCall d"
  by (rule ext) (simp add: formCall_def)
lemma signatureCall_ops [simp]: "signatureCall w (d\<lparr>ops := x\<rparr>) = signatureCall w d"
  by (rule ext) (simp add: signatureCall_def)
lemma textCall_ops [simp]: "textCall (d\<lparr>ops := x\<rparr>) = textCall d"
  by (rule ext) (simp add: textCall_def hasPage_def)
lemma imageCall_ops [simp]: "imageCall w (d\<lparr>ops := x\<rparr>) = imageCall w d"
  by (rule ext) (simp add: imageCall_def hasPage_def)

lemma fillForms_eq:
  "fillForms w (d\<lparr>ops := x\<rparr>) formData =
     (d\<lparr>ops := x @ appliedOps w (formCall d) formData\<rparr>,
      length (appliedOps w (formCall d) formData))"
proof (cases "formFields d")
  case None
  have "appliedOps w (formCall d) formData = []"
    using None by (induction formData) (simp_all add: appliedOps_Nil appliedOps_Cons formCall_def)
  then show ?thesis using None by (simp add: fillForms_def)
next
  case (Some flds)
  have "foldl (fillOne w flds) (d\<lparr>ops := x\<rparr>, 0) formData =
          (d\<lparr>ops := x @ appliedOps w (formCall d) formData\<rparr>,
           0 + length (appliedOps w (formCall d) formData))"
    by (rule foldl_body)
       (simp add: fillOne_def formCall_def Some split: option.splits field_kind.splits)
  then show ?thesis using Some by (simp add: fillForms_def)
qed

lemma addSignatures_eq:
  "addSignatures w (d\<lparr>ops := x\<rparr>) signatures =
     (d\<lparr>ops := x @ appliedOps w (signatureCall w d) signatures\<rparr>,
      length (appliedOps w (signatureCall w d) signatures))"
proof -
  have "foldl (addSignature w) (d\<lparr>ops := x\<rparr>, 0) signatures =
          (d\<lparr>ops := x @ appliedOps w (signatureCall w d) signatures\<rparr>,
           0 + length (appliedOps w (signatureCall w d) signatures))"
    by (rule foldl_body)
       (auto simp: addSignature_def signatureCall_def supportedImage_def Let_def)
  then show ?thesis by (simp add: addSignatures_def)
qed

lemma insertText_eq:
  "insertText w (d\<lparr>ops := x\<rparr>) texts =
     (d\<lparr>ops := x @ appliedOps w (textCall d) texts\<rparr>,
      length (appliedOps w (textCall d) texts))"
proof -
  have "foldl (insertTextItem w) (d\<lparr>ops := x\<rparr>, 0) texts =
          (d\<lparr>ops := x @ appliedOps w (textCall d) texts\<rparr>,
           0 + length (appliedOps w (textCall d) texts))"
    by (rule foldl_body)
       (auto simp: insertTextItem_def textCall_def hasPage_def Let_def)
  then show ?thesis by (simp add: insertText_def)
qed

lemma insertImages_eq:
  "insertImages w (d\<lparr>ops := x\<rparr>) images =
     (d\<lparr>ops := x @ appliedOps w (imageCall w d) images\<rparr>,
      length (appliedOps w (imageCall w d) images))"
proof -
  have "foldl (insertImageItem w) (d\<lparr>ops := x\<rparr>, 0) images =
          (d\<lparr>ops := x @ appliedOps w (imageCall w d) images\<rparr>,
           0 + length (appliedOps w (imageCall w d) images))"
    by (rule foldl_body)
       (auto simp: insertImageItem_def imageCall_def supportedImage_def hasPage_def Let_def)
  then show ?thesis by (simp add: insertImages_def)
qed

lemma applyEdits_eq:
  "applyEdits w d signatures formData texts images =
     (d\<lparr>ops := ops d @ appliedOps w (formCall d) formData
                 @ appliedOps w (signatureCall w d) signatures
                 @ appliedOps w (textCall d) texts
                 @ appliedOps w (imageCall w d) images\<rparr>,
      length (appliedOps w (formCall d) formData),
      length (appliedOps w (signatureCall w d) signatures),
      length (appliedOps w (textCall d) texts),
      length (appliedOps w (imageCall w d) images))"
proof -
  have d: "d = d\<lparr>ops := ops d\<rparr>" by simp
  have f: "(if length formData > 0 then fillForms w d formData else (d, 0)) =
             (d\<lparr>ops := ops d @ appliedOps w (formCall d) formData\<rparr>,
              length (appliedOps w (formCall d) formData))"
    using fillForms_eq [where d = d and x = "ops d"] by (cases formData) (simp_all add: appliedOps_Nil)
  show ?thesis
    unfolding applyEdits_def f Let_def fst_conv snd_conv
    by (simp add: addSignatures_eq insertText_eq insertImages_eq appliedOps_Nil)
qed

lemma modifyWithPdfLib_pdf:
  assumes "files w inputPath = Some (PdfFile d)"
  shows "modifyWithPdfLib w inputPath outPath signatures formData texts images =
     (if saveThrows w (fst (applyEdits w d signatures formData texts images))
      then Inl (ModificationFailed SaveError)
      else if \<not> writable w outPath then Inl (ModificationFailed (FileWriteError outPath))
      else Inr (\<lparr>success = True,
                 modificationsApplied =
                   length (appliedOps w (formCall d) formData)
                   + length (appliedOps w (signatureCall w d) signatures)
                   + length (appliedOps w (textCall d) texts)
                   + length (appliedOps w (imageCall w d) images),
                 signaturesAdded = length (appliedOps w (signatureCall w d) signatures),
                 formsFilled = length (appliedOps w (formCall d) formData),
                 textInsertions = length (appliedOps w (textCall d) texts),
                 imageInsertions = length (appliedOps w (imageCall w d) images),
                 outputPath = outPath,
                 processingTime = elapsed w inputPath,
                 errorMessage = None\<rparr>,
                fst (applyEdits w d signatures formData texts images)))"
  using assms by (simp add: modifyWithPdfLib_def applyEdits_eq)

lemma modifyWithPdfLib_not_pdf:
  assumes "\<forall>d. files w inputPath \<noteq> Some (PdfFile d)"
  shows "\<exists>e. modifyWithPdfLib w inputPath outPath signatures formData texts images = Inl e"
proof (cases "files w inputPath")
  case None
  then show ?thesis by (simp add: modifyWithPdfLib_def)
next
  case (Some c)
  with assms show ?thesis by (cases c) (simp_all add: modifyWithPdfLib_def)
qed

text \<open>
  C7. \<open>modifyPdf\<close> always returns a result. The result has \<open>success = false\<close>
  exactly when the input cannot be read or is not a PDF the library loads, or the
  edited document cannot be saved or written; then all counts are zero, the output
  path is empty, an error message is set and no file is written. In every other
  case the result has \<open>success = true\<close>, no error message, and the file is written to
  the output path.
\<close>

theorem modifyPdf_hard_failure:
  "(success (fst (modifyPdf w inputPath outPath signatures formData texts images))
      = (\<exists>d. files w inputPath = Some (PdfFile d)
              \<and> \<not> saveThrows w (fst (applyEdits w d signatures formData texts images))
              \<and> writable w outPath))
   \<and> (\<not> success (fst (modifyPdf w inputPath outPath signatures formData texts images)) \<longrightarrow>
        modifyPdf w inputPath outPath signatures formData texts images =
          (\<lparr>success = False, modificationsApplied = 0, signaturesAdded = 0, formsFilled = 0,
            textInsertions = 0, imageInsertions = 0, outputPath = [],
            processingTime = elapsed w inputPath,
            errorMessage = errorMessage (fst (modifyPdf w inputPath outPath signatures formData texts images))\<rparr>,
           None)
        \<and> errorMessage (fst (modifyPdf w inputPath outPath signatures formData texts images)) \<noteq> None)
   \<and> (success (fst (modifyPdf w inputPath outPath signatures formData texts images)) \<longrightarrow>
        errorMessage (fst (modifyPdf w inputPath outPath signatures formData texts images)) = None
        \<and> outputPath (fst (modifyPdf w inputPath outPath signatures formData texts images)) = outPath
        \<and> (\<exists>out. snd (modifyPdf w inputPath outPath signatures formData texts images)
                    = Some (outPath, out)))"
proof (cases "\<exists>d. files w inputPath = Some (PdfFile d)")
  case True
  then obtain d where d: "files w inputPath = Some (PdfFile d)" by blast
  show ?thesis
    by (simp add: modifyPdf_def modifyWithPdfLib_pdf [OF d] d)
next
  case False
  then have "\<forall>d. files w inputPath \<noteq> Some (PdfFile d)" by simp
  from modifyWithPdfLib_not_pdf [OF this]
  obtain e where "modifyWithPdfLib w inputPath outPath signatures formData texts images = Inl e"
    by blast
  with False show ?thesis by (simp add: modifyPdf_def)
qed

theorem modifyPdf_hard_failure_witness:
  "modifyPdf sampleWorld ''in/b.pdf'' ''out/b.pdf'' [] [] [] [] =
     (\<lparr>success = False, modificationsApplied = 0, signaturesAdded = 0, formsFilled = 0,
       textInsertions = 0, imageInsertions = 0, outputPath = [],
       processingTime = 5, errorMessage = Some (PdfLoadError ''in/b.pdf'')\<rparr>, None)
   \<and> success (fst (modifyPdf sampleWorld ''in/a.pdf'' ''out/a.pdf'' [] [] [] []))
   \<and> snd (modifyPdf sampleWorld ''in/a.pdf'' ''out/a.pdf'' [] [] [] [])
       = Some (''out/a.pdf'', sampleDoc 3)"
proof -
  have b: "files sampleWorld ''in/b.pdf'' = Some OtherContent"
    by (simp add: sampleWorld_def)
  have a: "files sampleWorld ''in/a.pdf'' = Some (PdfFile (sampleDoc 3))"
    by (simp add: sampleWorld_def)
  have e: "applyEdits sampleWorld (sampleDoc 3) [] [] [] [] = (sampleDoc 3, 0, 0, 0, 0)"
    by (simp add: applyEdits_def)
  have s: "saveThrows sampleWorld = (\<lambda>_. False)" "writable sampleWorld = (\<lambda>_. True)"
          "elapsed sampleWorld = (\<lambda>_. 5)"
    by (simp_all add: sampleWorld_def)
  have mb: "modifyWithPdfLib sampleWorld ''in/b.pdf'' ''out/b.pdf'' [] [] [] []
              = Inl (PdfLoadError ''in/b.pdf'')"
    by (simp add: modifyWithPdfLib_def b)
  from modifyPdf_hard_failure [of sampleWorld "''in/b.pdf''" "''out/b.pdf''" "[]" "[]" "[]" "[]"]
       modifyPdf_hard_failure [of sampleWorld "''in/a.pdf''" "''out/a.pdf''" "[]" "[]" "[]" "[]"]
  show ?thesis
    by (simp add: a b e s modifyPdf_def mb modifyWithPdfLib_def)
qed

lemma appliedOps_none:
  "\<forall>e \<in> set edits. call e = None \<Longrightarrow> appliedOps w call edits = []"
  by (induction edits) (simp_all add: appliedOps_Nil appliedOps_Cons)

lemma appliedOps_append:
  "appliedOps w call (xs @ ys) = appliedOps w call xs @ appliedOps w call ys"
  by (simp add: appliedOps_def)

lemma formCall_absent:
  assumes absent: "fieldName formItem \<notin> set (map f_name (orEmpty (formFields d)))"
  shows "formCall d formItem = None"
proof (cases "formFields d")
  case None
  then show ?thesis by (simp add: formCall_def)
next
  case (Some flds)
  have notin: "fieldName formItem \<notin> set (map f_name flds)"
    using absent Some by (simp add: orEmpty_def)
  have "\<forall>f \<in> set flds. f_name f \<noteq> fieldName formItem"
  proof
    fix f
    assume "f \<in> set flds"
    then have "f_name f \<in> set (map f_name flds)" by simp
    with notin show "f_name f \<noteq> fieldName formItem" by metis
  qed
  then have "find (\<lambda>f. f_name f = fieldName formItem) flds = None"
    by (simp add: find_None_iff)
  then show ?thesis using Some by (simp add: formCall_def)
qed

text \<open>
  C6. When the input document opens and the output can be saved and written, the
  result has \<open>success = true\<close> and the document is written, whatever the edits are.
  Each count is the number of edits of its kind that are not skipped and whose
  library call does not throw, and the written document is the input document with
  exactly the calls of those edits added, in the order forms, signatures, text,
  images: an edit that fails neither stops the edits after it nor is counted. In
  particular form items that name no field of the document give \<open>formsFilled = 0\<close>,
  text insertions on pages that do not exist give \<open>textInsertions = 0\<close>, and images
  that cannot be read or have an unsupported extension give \<open>imageInsertions = 0\<close>.
\<close>

theorem per_edit_failures_skipped:
  assumes "files w inputPath = Some (PdfFile d)"
      and "\<forall>x. \<not> saveThrows w x"
      and "writable w outPath"
  shows "\<exists>r out. modifyPdf w inputPath outPath signatures formData texts images
                    = (r, Some (outPath, out))
           \<and> success r
           \<and> formsFilled r = length (appliedOps w (formCall d) formData)
           \<and> signaturesAdded r = length (appliedOps w (signatureCall w d) signatures)
           \<and> textInsertions r = length (appliedOps w (textCall d) texts)
           \<and> imageInsertions r = length (appliedOps w (imageCall w d) images)
           \<and> out = d\<lparr>ops := ops d @ appliedOps w (formCall d) formData
                                  @ appliedOps w (signatureCall w d) signatures
                                  @ appliedOps w (textCall d) texts
                                  @ appliedOps w (imageCall w d) images\<rparr>
           \<and> ((\<forall>formItem \<in> set formData.
                  fieldName formItem \<notin> set (map f_name (orEmpty (formFields d))))
                \<longrightarrow> formsFilled r = 0)
           \<and> ((\<forall>textItem \<in> set texts. \<not> hasPage d (pageIndexOf (t_pageNumber textItem)))
                \<longrightarrow> textInsertions r = 0)
           \<and> ((\<forall>imageItem \<in> set images.
                  files w (i_imagePath imageItem) = None
                  \<or> \<not> (endsWith (toLowerCase (i_imagePath imageItem)) ''.png''
                        \<or> endsWith (toLowerCase (i_imagePath imageItem)) ''.jpg''
                        \<or> endsWith (toLowerCase (i_imagePath imageItem)) ''.jpeg''))
                \<longrightarrow> imageInsertions r = 0)"
proof -
  have noForm: "(\<forall>formItem \<in> set formData.
                  fieldName formItem \<notin> set (map f_name (orEmpty (formFields d))))
               \<longrightarrow> appliedOps w (formCall d) formData = []"
    by (intro impI appliedOps_none ballI formCall_absent) blast
  have noText: "(\<forall>textItem \<in> set texts. \<not> hasPage d (pageIndexOf (t_pageNumber textItem)))
               \<longrightarrow> appliedOps w (textCall d) texts = []"
    by (intro impI appliedOps_none ballI) (simp add: textCall_def)
  have noImage: "(\<forall>imageItem \<in> set images.
                  files w (i_imagePath imageItem) = None
                  \<or> \<not> (endsWith (toLowerCase (i_imagePath imageItem)) ''.png''
                        \<or> endsWith (toLowerCase (i_imagePath imageItem)) ''.jpg''
                        \<or> endsWith (toLowerCase (i_imagePath imageItem)) ''.jpeg''))
               \<longrightarrow> appliedOps w (imageCall w d) images = []"
    by (intro impI appliedOps_none ballI) (auto simp: imageCall_def supportedImage_def)
  show ?thesis
    using assms noForm noText noImage
    by (simp add: modifyPdf_def modifyWithPdfLib_pdf [OF assms(1)] applyEdits_eq)
qed

theorem per_edit_failures_skipped_witness:
  "files sampleWorld ''in/a.pdf'' = Some (PdfFile (sampleDoc 3))
   \<and> (\<forall>x. \<not> saveThrows sampleWorld x)
   \<and> writable sampleWorld ''out/a.pdf''
   \<and> success (fst (modifyPdf sampleWorld ''in/a.pdf'' ''out/a.pdf'' []
                     [absentFieldItem] [lostPageText, firstPageText] []))
   \<and> formsFilled (fst (modifyPdf sampleWorld ''in/a.pdf'' ''out/a.pdf'' []
                     [absentFieldItem] [lostPageText, firstPageText] [])) = 0
   \<and> textInsertions (fst (modifyPdf sampleWorld ''in/a.pdf'' ''out/a.pdf'' []
                     [absentFieldItem] [lostPageText, firstPageText] [])) = 1
   \<and> snd (modifyPdf sampleWorld ''in/a.pdf'' ''out/a.pdf'' []
                     [absentFieldItem] [lostPageText, firstPageText] [])
       = Some (''out/a.pdf'', (sampleDoc 3)\<lparr>ops :=
           [DrawText 0 ''APPROVED'' [Num 450, Num 50] (Num 12) [Num 0, Num 0, Num 0]]\<rparr>)"
proof -
  have h1: "files sampleWorld ''in/a.pdf'' = Some (PdfFile (sampleDoc 3))"
    by (simp add: sampleWorld_def)
  have h2: "\<forall>x. \<not> saveThrows sampleWorld x"
    by (simp add: sampleWorld_def)
  have h3: "writable sampleWorld ''out/a.pdf''"
    by (simp add: sampleWorld_def)
  have f: "appliedOps sampleWorld (formCall (sampleDoc 3)) [absentFieldItem] = []"
    by (simp add: appliedOps_def formCall_def sampleDoc_def absentFieldItem_def)
  have t: "appliedOps sampleWorld (textCall (sampleDoc 3)) [lostPageText, firstPageText]
             = [DrawText 0 ''APPROVED'' [Num 450, Num 50] (Num 12) [Num 0, Num 0, Num 0]]"
    by (simp add: appliedOps_def textCall_def sampleDoc_def lostPageText_def firstPageText_def
          hasPage_def pageIndexOf_def orNum_def defaultColor_def sampleWorld_def)
  have e: "appliedOps sampleWorld (signatureCall sampleWorld (sampleDoc 3)) [] = []"
          "appliedOps sampleWorld (imageCall sampleWorld (sampleDoc 3)) [] = []"
    by (simp_all add: appliedOps_def)
  have o: "ops (sampleDoc 3) = []"
    by (simp add: sampleDoc_def)
  from per_edit_failures_skipped [OF h1 h2 h3, where signatures = "[]"
         and formData = "[absentFieldItem]" and texts = "[lostPageText, firstPageText]"
         and images = "[]"]
  obtain r out where
    "modifyPdf sampleWorld ''in/a.pdf'' ''out/a.pdf'' [] [absentFieldItem]
       [lostPageText, firstPageText] [] = (r, Some (''out/a.pdf'', out))"
    "success r" "formsFilled r = 0" "textInsertions r = 1"
    "out = (sampleDoc 3)\<lparr>ops := [DrawText 0 ''APPROVED'' [Num 450, Num 50] (Num 12)
                                    [Num 0, Num 0, Num 0]]\<rparr>"
    unfolding f t e o by auto
  with h1 h2 h3 show ?thesis by simp
qed

section \<open>Properties of the request building\<close>

lemma spread_empty: "noKeys c \<Longrightarrow> spread c t = t"
  by (simp add: noKeys_def spread_def later_def split: option.splits)

lemma noKeys_spread: "\<not> noKeys t \<Longrightarrow> \<not> noKeys (spread c t)"
  by (auto simp: noKeys_def spread_def later_def split: option.splits)

text \<open>
  C1. The claim: a resolved template combined with one \<open>--add-text\<close> flag yields a
  request with the template's number of edits plus one. With the template
  \<open>approval-stamp\<close> (two text insertions) and \<open>--add-text\<close>, the request has two
  edits, not three: the flags are read only when configuration and template left no
  key.
\<close>

theorem template_not_added_to_flags:
  "map_sum id editCount (buildModifications sampleEnv stampAndTextOptions) = Inr 2
   \<and> map_option editCount (loadModificationTemplate (clock sampleEnv) ''approval-stamp'') = Some 2"
  by (simp add: buildModifications_def loadConfig_def applyTemplate_def stampAndTextOptions_def
        defaultOptions_def truthyStr_def loadModificationTemplate_def spread_def later_def
        emptyMods_def noKeys_def editCount_def orEmpty_def)

text \<open>
  C1, as amended. When the configuration loads and a template resolves to a request
  with at least one key, the request built is the configuration with the template
  spread over it: for each kind of edit the template's list when the template has
  that key, the configuration's list otherwise. The edit flags of the command line
  do not enter it. Without keys from a configuration file, the request has exactly
  the template's number of edits.
\<close>

theorem template_replaces_flags:
  assumes "loadConfig env opts = Inr c"
      and "truthyStr (o_template opts)"
      and "loadModificationTemplate (clock env) (the (o_template opts)) = Some t"
      and "\<not> noKeys t"
  shows "buildModifications env opts = Inr (spread c t)
         \<and> m_signatures (spread c t)
             = (case m_signatures t of None \<Rightarrow> m_signatures c | Some l \<Rightarrow> Some l)
         \<and> m_formData (spread c t)
             = (case m_formData t of None \<Rightarrow> m_formData c | Some l \<Rightarrow> Some l)
         \<and> m_textInsertions (spread c t)
             = (case m_textInsertions t of None \<Rightarrow> m_textInsertions c | Some l \<Rightarrow> Some l)
         \<and> (noKeys c \<longrightarrow> editCount (spread c t) = editCount t)"
  using assms noKeys_spread [of t c]
  by (simp add: buildModifications_def applyTemplate_def spread_empty)
     (simp add: spread_def later_def)

theorem template_replaces_flags_witness:
  "loadConfig sampleEnv stampAndTextOptions = Inr emptyMods
   \<and> truthyStr (o_template stampAndTextOptions)
   \<and> noKeys emptyMods
   \<and> map_sum id editCount (buildModifications sampleEnv stampAndTextOptions) = Inr 2
   \<and> map_sum id (map_option (map t_text) \<circ> m_textInsertions)
        (buildModifications sampleEnv stampAndTextOptions)
      = Inr (Some [''APPROVED'', ''Date: 2024-05-06''])"
proof -
  let ?t = "emptyMods\<lparr>m_textInsertions := Some
          [templateText ''APPROVED'' [Num 450, Num 50] (Num 16),
           templateText ''Date: 2024-05-06'' [Num 450, Num 30] (Num 10)]\<rparr>"
  have h1: "loadConfig sampleEnv stampAndTextOptions = Inr emptyMods"
    by (simp add: loadConfig_def stampAndTextOptions_def defaultOptions_def truthyStr_def)
  have h2: "truthyStr (o_template stampAndTextOptions)"
    by (simp add: stampAndTextOptions_def truthyStr_def)
  have h3: "loadModificationTemplate (clock sampleEnv) (the (o_template stampAndTextOptions))
              = Some ?t"
    by (simp add: loadModificationTemplate_def stampAndTextOptions_def sampleEnv_def
          firstPart_def split_def)
  have h4: "\<not> noKeys ?t"
    by (simp add: noKeys_def emptyMods_def)
  have e: "noKeys emptyMods"
    by (simp add: noKeys_def emptyMods_def)
  from template_replaces_flags [OF h1 h2 h3 h4] e
  have "buildModifications sampleEnv stampAndTextOptions = Inr (spread emptyMods ?t)"
       "editCount (spread emptyMods ?t) = editCount ?t"
    by simp_all
  then show ?thesis
    using h1 h2 e
    by (simp add: spread_empty editCount_def orEmpty_def emptyMods_def templateText_def)
qed

section \<open>Properties of the all-pages expansion\<close>

lemma expandAllPages_Suc:
  "expandAllPages (Suc n) base =
     expandAllPages n base @
     map (\<lambda>textItem. \<lparr>t_text = t_text textItem, t_position = t_position textItem,
                       t_pageNumber = Some (int n), t_fontSize = t_fontSize textItem,
                       t_color = None, t_fontName = None\<rparr>) base"
  by (simp add: expandAllPages_def)

text \<open>
  The expansion of \<open>n\<close> pages holds \<open>n\<close> copies of every base item, one per page
  index below \<open>n\<close>, with the text, position and font size of the item.
\<close>

lemma expandAllPages_length: "length (expandAllPages n base) = n * length base"
  by (induction n) (simp_all add: expandAllPages_Suc, simp add: expandAllPages_def)

lemma expandAllPages_nth:
  assumes "p < n" and "i < length base"
  shows "expandAllPages n base ! (p * length base + i) =
           \<lparr>t_text = t_text (base ! i), t_position = t_position (base ! i),
            t_pageNumber = Some (int p), t_fontSize = t_fontSize (base ! i),
            t_color = None, t_fontName = None\<rparr>"
  using assms
proof (induction n)
  case 0
  then show ?case by simp
next
  case (Suc n)
  show ?case
  proof (cases "p < n")
    case True
    have "p * length base + i < Suc p * length base"
      using Suc.prems(2) by simp
    also have "\<dots> \<le> n * length base"
      using True by (intro mult_le_mono1) simp
    finally have "p * length base + i < n * length base" .
    then show ?thesis
      using Suc.IH [OF True Suc.prems(2)]
      by (simp add: expandAllPages_Suc nth_append expandAllPages_length)
  next
    case False
    with Suc.prems have "p = n" by simp
    then show ?thesis
      using Suc.prems(2)
      by (simp add: expandAllPages_Suc nth_append expandAllPages_length)
  qed
qed

text \<open>
  C2. The claim: every edit flagged all-pages is replaced by one copy per page, each
  equal to the source edit in all other fields. The template
  \<open>confidential-watermark\<close> flags its text insertion with \<open>allPages: true\<close>, but the
  dispatch tests the command-line flag only: without \<open>--all-pages\<close> the document
  of three pages receives one insertion, not three. And the copies the expansion
  makes carry no colour, whatever the colour of the source edit.
\<close>

theorem watermark_template_not_expanded:
  "map_option results (batchModifyAction sampleWorld sampleEnv [] ''in'' ''out'' watermarkOptions)
     = Some [Succeeded ''a.pdf'' 1 5, Failed ''b.pdf'' (Some (PdfLoadError ''in/b.pdf'')),
             Succeeded ''c.pdf'' 1 5]
   \<and> t_color redText = Some [Num 1, Num 0, Num 0]
   \<and> map t_color (expandAllPages 2 [redText]) = [None, None]"
  by code_simp

text \<open>With the flag \<open>--all-pages\<close> the same template is expanded per page.\<close>

lemma watermark_with_flag_expanded:
  "map_option results (batchModifyAction sampleWorld sampleEnv [] ''in'' ''out''
     (watermarkOptions\<lparr>o_allPages := True\<rparr>))
     = Some [Succeeded ''a.pdf'' 3 5, Failed ''b.pdf'' (Some (PdfLoadError ''in/b.pdf'')),
             Succeeded ''c.pdf'' 1 5]"
  by code_simp

section \<open>Properties of the batch run\<close>

lemma foldl_push: "foldl (\<lambda>results file. results @ [body file]) acc fs = acc @ map body fs"
  by (induction fs arbitrary: acc) simp_all

lemma sequentialResults_map: "sequentialResults body fs = map body fs"
  by (simp add: sequentialResults_def foldl_push)

lemma those_map_Some: "those (map Some xs) = Some xs"
  by (induction xs) simp_all

text \<open>
  The slots after the promises of \<open>order\<close> have settled: a slot whose index occurs in
  \<open>order\<close> holds the value of that index, every other slot is as before.
\<close>

lemma settle_slots:
  assumes "length slots = length vals"
  shows "length (foldl (\<lambda>slots i. if i < length vals then slots[i := Some (vals ! i)] else slots)
                   slots order) = length vals
         \<and> (\<forall>j < length vals.
               foldl (\<lambda>slots i. if i < length vals then slots[i := Some (vals ! i)] else slots)
                 slots order ! j
               = (if j \<in> set order then Some (vals ! j) else slots ! j))"
  using assms
proof (induction order arbitrary: slots)
  case Nil
  then show ?case by simp
next
  case (Cons i order)
  let ?s = "if i < length vals then slots[i := Some (vals ! i)] else slots"
  have len: "length ?s = length vals" using Cons.prems by simp
  from Cons.IH [OF len] show ?case
    using Cons.prems by (auto simp: nth_list_update)
qed

lemma promiseAll_settled:
  assumes "{..<length vals} \<subseteq> set order"
  shows "promiseAll order vals = Some vals"
proof -
  let ?f = "\<lambda>slots i. if i < length vals then slots[i := Some (vals ! i)] else slots"
  have "foldl ?f (replicate (length vals) None) order = map Some vals"
  proof (rule nth_equalityI)
    show "length (foldl ?f (replicate (length vals) None) order) = length (map Some vals)"
      using settle_slots [of "replicate (length vals) None" vals order] by simp
  next
    fix j
    assume "j < length (foldl ?f (replicate (length vals) None) order)"
    then have j: "j < length vals"
      using settle_slots [of "replicate (length vals) None" vals order] by simp
    then have "j \<in> set order" using assms by auto
    then show "foldl ?f (replicate (length vals) None) order ! j = map Some vals ! j"
      using settle_slots [of "replicate (length vals) None" vals order] j by simp
  qed
  then show ?thesis by (simp add: promiseAll_def those_map_Some)
qed

lemma parallelResults_map:
  assumes "set order = {..<length fs}"
  shows "parallelResults order body fs = Some (map body fs)"
  using assms by (simp add: parallelResults_def promiseAll_settled)

lemma loadConfig_parallel [simp]:
  "loadConfig env (opts\<lparr>o_parallel := b\<rparr>) = loadConfig env opts"
  by (simp add: loadConfig_def)

lemma applyTemplate_parallel [simp]:
  "applyTemplate env (opts\<lparr>o_parallel := b\<rparr>) = applyTemplate env opts"
  by (rule ext) (simp add: applyTemplate_def)

lemma fromFlags_parallel [simp]:
  "fromFlags (opts\<lparr>o_parallel := b\<rparr>) = fromFlags opts"
  by (simp add: fromFlags_def batchSignatures_def batchTexts_def cliText_def)

lemma buildModifications_parallel [simp]:
  "buildModifications env (opts\<lparr>o_parallel := b\<rparr>) = buildModifications env opts"
  by (simp add: buildModifications_def Let_def split: sum.splits)

lemma discoverFiles_parallel [simp]:
  "discoverFiles env inputDir (opts\<lparr>o_parallel := b\<rparr>) = discoverFiles env inputDir opts"
  by (simp add: discoverFiles_def)

lemma processFile_parallel [simp]:
  "processFile w outputDir (opts\<lparr>o_parallel := b\<rparr>) = processFile w outputDir opts"
  by (rule ext)+ (simp add: processFile_def)

text \<open>The action, once the order of settling covers every file.\<close>

lemma batchModifyAction_eq:
  assumes "set order = {..<length (discoverFiles env inputDir opts)}"
  shows "batchModifyAction w env order inputDir outputDir opts =
     Some (if \<not> ensureDir env outputDir then earlyExit 1
           else if discoverFiles env inputDir opts = [] then earlyExit 0
           else (case buildModifications env opts of
                   Inl e \<Rightarrow> earlyExit 1
                 | Inr mods \<Rightarrow>
                     if o_previewOnly opts then earlyExit 0
                     else finishBatch (map (processFile w outputDir opts mods)
                                         (discoverFiles env inputDir opts))))"
  using assms
  by (simp add: batchModifyAction_def Let_def parallelResults_map sequentialResults_map
        split: sum.splits)




text \<open>
  C8. Once the output directory is there and the configuration (if any) loads, a run
  of \<open>batch-modify\<close> ends with exit code 0 in every environment of documents, so
  also when some or all files fail; the failures are counted in the summary. The
  \<open>modify\<close> command ends with exit code 1 whenever the modifier was called and its
  result has \<open>success = false\<close>.
\<close>

theorem exit_codes:
  assumes "set order = {..<length (discoverFiles env inputDir opts)}"
      and "ensureDir env outputDir"
      and "loadConfig env opts = Inr c"
  shows "(\<exists>run. batchModifyAction w env order inputDir outputDir opts = Some run
                \<and> exitCode run = 0
                \<and> successful run + failed run = length (results run))
         \<and> (\<forall>r. snd (modifyAction w inFile outFile opts') = Some r \<and> \<not> success (fst r)
                  \<longrightarrow> fst (modifyAction w inFile outFile opts') = 1)"
proof -
  obtain mods where mods: "buildModifications env opts = Inr mods"
    using assms(3) by (simp add: buildModifications_def Let_def)
  have le: "length (filter isSuccess rs) \<le> length rs" for rs :: "result_entry list"
    by simp
  have batch: "\<exists>run. batchModifyAction w env order inputDir outputDir opts = Some run
                \<and> exitCode run = 0
                \<and> successful run + failed run = length (results run)"
    using assms(2) mods le
    by (simp add: batchModifyAction_eq [OF assms(1)] earlyExit_def finishBatch_def)
  have single: "\<forall>r. snd (modifyAction w inFile outFile opts') = Some r \<and> \<not> success (fst r)
                  \<longrightarrow> fst (modifyAction w inFile outFile opts') = 1"
    by (auto simp: modifyAction_def Let_def split: sum.splits if_splits)
  from batch single show ?thesis by blast
qed

theorem exit_codes_witness:
  "set [0, 1, 2] = {..<length (discoverFiles sampleEnv ''in'' textOptions)}
   \<and> ensureDir sampleEnv ''out''
   \<and> loadConfig sampleEnv textOptions = Inr emptyMods
   \<and> map_option exitCode (batchModifyAction brokenWorld sampleEnv [0, 1, 2] ''in'' ''out''
                             textOptions) = Some 0
   \<and> map_option failed (batchModifyAction brokenWorld sampleEnv [0, 1, 2] ''in'' ''out''
                           textOptions) = Some 3
   \<and> \<not> success (fst (the (snd (modifyAction brokenWorld ''in/a.pdf'' ''out/a.pdf'' textOptions))))
   \<and> fst (modifyAction brokenWorld ''in/a.pdf'' ''out/a.pdf'' textOptions) = 1"
proof -
  have n: "length (discoverFiles sampleEnv ''in'' textOptions) = 3"
    by code_simp
  have h1: "set [0, 1, 2] = {..<length (discoverFiles sampleEnv ''in'' textOptions)}"
    unfolding n by auto
  have h2: "ensureDir sampleEnv ''out''"
    by (simp add: sampleEnv_def)
  have h3: "loadConfig sampleEnv textOptions = Inr emptyMods"
    by (simp add: loadConfig_def textOptions_def defaultOptions_def truthyStr_def)
  have f: "map_option failed (batchModifyAction brokenWorld sampleEnv [0, 1, 2] ''in'' ''out''
                           textOptions) = Some 3"
    by code_simp
  have m: "snd (modifyAction brokenWorld ''in/a.pdf'' ''out/a.pdf'' textOptions)
            = Some (\<lparr>success = False, modificationsApplied = 0, signaturesAdded = 0,
                     formsFilled = 0, textInsertions = 0, imageInsertions = 0,
                     outputPath = [], processingTime = 5,
                     errorMessage = Some (FileReadError ''in/a.pdf'')\<rparr>, None)"
    by code_simp
  from exit_codes [OF h1 h2 h3, where w = brokenWorld and inFile = "''in/a.pdf''"
         and outFile = "''out/a.pdf''" and opts' = textOptions]
  show ?thesis using h1 h2 h3 f m by auto
qed



end
